theory Spec2Isabelle
  imports Main
begin

section \<open>Data model (shared/schema.ts)\<close>

text \<open>
  Timestamps (\<open>Date\<close> values) are integers: milliseconds since the Unix epoch. Numbers used
  as identifiers are integers.

  \<open>InsertTask\<close> is the output type of \<open>insertTaskSchema\<close>: the columns of the \<open>tasks\<close> table
  without \<open>id\<close> and \<open>createdAt\<close>. The columns \<open>priority\<close> and \<open>completed\<close> carry a database
  default, so they are optional in the insert schema: \<open>None\<close> is an absent property.
  \<open>Task\<close> extends it by \<open>id\<close> (field \<open>task_id\<close>, since \<open>id\<close> is the identity function of HOL)
  and \<open>createdAt\<close> (a nullable column).
\<close>

record InsertTask =
  userId :: int
  description :: string
  assignee :: string
  dueDateUtc :: int
  dueDateOriginal :: string
  priority :: "string option"
  completed :: "bool option"

record Task = InsertTask +
  task_id :: int
  createdAt :: "int option"

text \<open>
  \<open>UpdateTask\<close> is the output type of \<open>updateTaskSchema\<close>: the insert columns without
  \<open>userId\<close>, every one of them optional (\<open>.partial()\<close>).
\<close>

record UpdateTask =
  description_upd :: "string option"
  assignee_upd :: "string option"
  dueDateUtc_upd :: "int option"
  dueDateOriginal_upd :: "string option"
  priority_upd :: "string option"
  completed_upd :: "bool option"

record User =
  user_id :: int
  username :: string
  timezone :: string

text \<open>The outcome of an asynchronous storage method: the promise resolves or rejects.\<close>

datatype 'a outcome = Returns 'a | Throws

text \<open>
  Overwriting the columns of a task by the properties present in an update: the object spread
  \<open>{ ...task, ...updates }\<close> of \<open>MemStorage.updateTask\<close> and the \<open>SET\<close> clause that
  \<open>.set(updates)\<close> produces in \<open>DatabaseStorage.updateTask\<close>. Neither \<open>id\<close> nor \<open>userId\<close>
  is a property of \<open>UpdateTask\<close>.
\<close>

definition applyUpdates :: "Task \<Rightarrow> UpdateTask \<Rightarrow> Task" where
  "applyUpdates task updates = task
     \<lparr> description := (case description_upd updates of Some v \<Rightarrow> v | None \<Rightarrow> description task),
       assignee := (case assignee_upd updates of Some v \<Rightarrow> v | None \<Rightarrow> assignee task),
       dueDateUtc := (case dueDateUtc_upd updates of Some v \<Rightarrow> v | None \<Rightarrow> dueDateUtc task),
       dueDateOriginal :=
         (case dueDateOriginal_upd updates of Some v \<Rightarrow> v | None \<Rightarrow> dueDateOriginal task),
       priority := (case priority_upd updates of Some v \<Rightarrow> Some v | None \<Rightarrow> priority task),
       completed := (case completed_upd updates of Some v \<Rightarrow> Some v | None \<Rightarrow> completed task) \<rparr>"

section \<open>MemStorage (the in-memory implementation of IStorage)\<close>

text \<open>
  A JavaScript \<open>Map\<close> keeps its entries in insertion order: it is an association list with
  one entry per key. \<open>set\<close> replaces the value of an existing key in place and appends a new
  key at the end; \<open>delete\<close> reports whether the key was present.
\<close>

type_synonym ('k, 'v) jsmap = "('k \<times> 'v) list"

definition Map_get :: "('k, 'v) jsmap \<Rightarrow> 'k \<Rightarrow> 'v option" where
  "Map_get m k = map_of m k"

fun Map_set :: "('k, 'v) jsmap \<Rightarrow> 'k \<Rightarrow> 'v \<Rightarrow> ('k, 'v) jsmap" where
  "Map_set [] k v = [(k, v)]"
| "Map_set (p # ps) k v = (if fst p = k then (k, v) # ps else p # Map_set ps k v)"

definition Map_delete :: "('k, 'v) jsmap \<Rightarrow> 'k \<Rightarrow> bool \<times> ('k, 'v) jsmap" where
  "Map_delete m k = (list_ex (\<lambda>p. fst p = k) m, filter (\<lambda>p. fst p \<noteq> k) m)"

definition Map_values :: "('k, 'v) jsmap \<Rightarrow> 'v list" where
  "Map_values m = map snd m"

text \<open>The task part of the state of a \<open>MemStorage\<close> object (the user map plays no role here).\<close>

record MemStorage =
  tasks :: "(int, Task) jsmap"
  currentTaskId :: int

definition Mem_new :: MemStorage where
  "Mem_new = \<lparr> tasks = [], currentTaskId = 1 \<rparr>"

definition Mem_getTasksByUserId :: "MemStorage \<Rightarrow> int \<Rightarrow> Task list" where
  "Mem_getTasksByUserId this uid = filter (\<lambda>task. userId task = uid) (Map_values (tasks this))"

text \<open>\<open>now\<close> is the value of \<open>new Date()\<close> at the call.\<close>

definition Mem_createTask :: "MemStorage \<Rightarrow> int \<Rightarrow> InsertTask \<Rightarrow> Task \<times> MemStorage" where
  "Mem_createTask this now insertTask =
     (let ident = currentTaskId this;
          task = InsertTask.extend insertTask (Task.fields ident (Some now))
      in (task, this \<lparr> tasks := Map_set (tasks this) ident task, currentTaskId := ident + 1 \<rparr>))"

definition Mem_updateTask ::
  "MemStorage \<Rightarrow> int \<Rightarrow> int \<Rightarrow> UpdateTask \<Rightarrow> Task option \<times> MemStorage" where
  "Mem_updateTask this ident uid updates =
     (case Map_get (tasks this) ident of
        None \<Rightarrow> (None, this)
      | Some task \<Rightarrow>
          if userId task \<noteq> uid then (None, this)
          else (let updatedTask = applyUpdates task updates
                in (Some updatedTask, this \<lparr> tasks := Map_set (tasks this) ident updatedTask \<rparr>)))"

definition Mem_deleteTask :: "MemStorage \<Rightarrow> int \<Rightarrow> int \<Rightarrow> bool \<times> MemStorage" where
  "Mem_deleteTask this ident uid =
     (case Map_get (tasks this) ident of
        None \<Rightarrow> (False, this)
      | Some task \<Rightarrow>
          if userId task \<noteq> uid then (False, this)
          else (let (existed, m) = Map_delete (tasks this) ident
                in (existed, this \<lparr> tasks := m \<rparr>)))"

section \<open>DatabaseStorage (server/storage.ts)\<close>

text \<open>
  The \<open>tasks\<close> table is the list of its rows together with the next value of the sequence
  behind the \<open>serial\<close> primary key. A query without \<open>ORDER BY\<close> returns the rows in the order
  of the list.

  The database reads the parameters of a statement before it executes it and refuses the
  statement when a value is not one its column type admits. Which values these are belongs
  to the database and its driver, not to this repository, so the two checks that matter for
  the columns of \<open>tasks\<close> are components of the database: \<open>text_ok\<close> for a \<open>text\<close> column
  and \<open>timestamp_ok\<close> for a \<open>timestamp\<close> column. The integers the methods pass are ids the
  database has issued. A refused statement changes nothing, the sequence included, and the
  method throws. Failures of the connection are not modelled.
\<close>

record Database =
  tasks_rows :: "Task list"
  tasks_id_seq :: int
  text_ok :: "string \<Rightarrow> bool"
  timestamp_ok :: "int \<Rightarrow> bool"

definition opt_ok :: "('a \<Rightarrow> bool) \<Rightarrow> 'a option \<Rightarrow> bool" where
  "opt_ok ok v = (case v of None \<Rightarrow> True | Some x \<Rightarrow> ok x)"

text \<open>The values of an insert, and the values an update sets, pass the checks.\<close>

definition insert_ok :: "Database \<Rightarrow> InsertTask \<Rightarrow> bool" where
  "insert_ok db insertTask =
     (text_ok db (description insertTask) \<and> text_ok db (assignee insertTask)
      \<and> timestamp_ok db (dueDateUtc insertTask) \<and> text_ok db (dueDateOriginal insertTask)
      \<and> opt_ok (text_ok db) (priority insertTask))"

definition update_ok :: "Database \<Rightarrow> UpdateTask \<Rightarrow> bool" where
  "update_ok db updates =
     (opt_ok (text_ok db) (description_upd updates) \<and> opt_ok (text_ok db) (assignee_upd updates)
      \<and> opt_ok (timestamp_ok db) (dueDateUtc_upd updates)
      \<and> opt_ok (text_ok db) (dueDateOriginal_upd updates)
      \<and> opt_ok (text_ok db) (priority_upd updates))"

text \<open>An update with at least one property: \<open>.set\<close> throws "No values to set" on any other.\<close>

definition sets_column :: "UpdateTask \<Rightarrow> bool" where
  "sets_column updates =
     (\<not> (description_upd updates = None \<and> assignee_upd updates = None
         \<and> dueDateUtc_upd updates = None \<and> dueDateOriginal_upd updates = None
         \<and> priority_upd updates = None \<and> completed_upd updates = None))"

text \<open>
  A sample of the two checks: PostgreSQL refuses the NUL character in a text value, and
  timestamps of the years 1 to 9999 are admitted whatever the driver.
\<close>

definition no_NUL :: "string \<Rightarrow> bool" where
  "no_NUL s = (CHR 0x00 \<notin> set s)"

definition years_1_to_9999 :: "int \<Rightarrow> bool" where
  "years_1_to_9999 t = (- 62135596800000 \<le> t \<and> t \<le> 253402300799999)"

text \<open>An empty table in a database with the sample checks.\<close>

definition Db_new :: Database where
  "Db_new = \<lparr> tasks_rows = [], tasks_id_seq = 1, text_ok = no_NUL,
              timestamp_ok = years_1_to_9999 \<rparr>"

text \<open>\<open>select().from(tasks).where(eq(tasks.userId, userId))\<close>\<close>

definition Db_getTasksByUserId :: "Database \<Rightarrow> int \<Rightarrow> Task list" where
  "Db_getTasksByUserId db uid = filter (\<lambda>row. userId row = uid) (tasks_rows db)"

text \<open>
  \<open>insert(tasks).values(insertTask).returning()\<close>: when the values pass the checks, the
  database fills \<open>id\<close> from the sequence, \<open>created_at\<close> from its clock (\<open>defaultNow()\<close>), and
  the columns \<open>priority\<close> and \<open>completed\<close> from their defaults \<open>'P3'\<close> and \<open>false\<close> where the
  insert leaves them out; otherwise the statement fails and the method throws.
\<close>

definition Db_createTask :: "Database \<Rightarrow> int \<Rightarrow> InsertTask \<Rightarrow> Task outcome \<times> Database" where
  "Db_createTask db now insertTask =
     (if insert_ok db insertTask
      then (let ident = tasks_id_seq db;
                row = InsertTask.extend
                        (insertTask
                           \<lparr> priority :=
                               Some (case priority insertTask of Some p \<Rightarrow> p | None \<Rightarrow> ''P3''),
                             completed :=
                               Some (case completed insertTask of Some c \<Rightarrow> c | None \<Rightarrow> False) \<rparr>)
                        (Task.fields ident (Some now))
            in (Returns row,
                db \<lparr> tasks_rows := tasks_rows db @ [row], tasks_id_seq := ident + 1 \<rparr>))
      else (Throws, db))"

text \<open>
  \<open>update(tasks).set(updates).where(eq(tasks.id, id)).returning()\<close>: the \<open>WHERE\<close> clause
  names the id only. \<open>.set\<close> throws on an update without a property, and the database
  refuses an update with a value that fails a check; in both cases the method throws and
  the table is unchanged. Otherwise the statement rewrites every row with that id and returns
  the rewritten rows; the method then compares the owner of the first returned row with the
  caller.
\<close>

definition Db_updateTask ::
  "Database \<Rightarrow> int \<Rightarrow> int \<Rightarrow> UpdateTask \<Rightarrow> Task option outcome \<times> Database" where
  "Db_updateTask db ident uid updates =
     (if \<not> sets_column updates then (Throws, db)
      else if \<not> update_ok db updates then (Throws, db)
      else
        (let returning = map (\<lambda>row. applyUpdates row updates)
                             (filter (\<lambda>row. task_id row = ident) (tasks_rows db));
             db' = db \<lparr> tasks_rows :=
                          map (\<lambda>row. if task_id row = ident then applyUpdates row updates else row)
                              (tasks_rows db) \<rparr>
         in (case returning of
               [] \<Rightarrow> (Returns None, db')
             | task # _ \<Rightarrow> (Returns (if userId task = uid then Some task else None), db'))))"

text \<open>
  \<open>delete(tasks).where(eq(tasks.id, id)).returning()\<close>: removes every row with that id and
  returns the removed rows; the owner is compared afterwards.
\<close>

definition Db_deleteTask :: "Database \<Rightarrow> int \<Rightarrow> int \<Rightarrow> bool \<times> Database" where
  "Db_deleteTask db ident uid =
     (let result = filter (\<lambda>row. task_id row = ident) (tasks_rows db);
          db' = db \<lparr> tasks_rows := filter (\<lambda>row. task_id row \<noteq> ident) (tasks_rows db) \<rparr>
      in (case result of
            [] \<Rightarrow> (False, db')
          | row # _ \<Rightarrow> (userId row = uid, db')))"

section \<open>JavaScript values\<close>

text \<open>
  Request bodies, the elements of the model's answer and the objects handed to the zod
  schemas are untyped at run time. \<open>JObj\<close> lists the own properties of a plain object, one
  entry per key; \<open>JDate\<close> is a \<open>Date\<close> object with its time value (\<open>None\<close> for an invalid
  date); a number is represented by an integer, only its type and whether it is zero
  matter below.
\<close>

datatype jsval =
    JUndefined
  | JNull
  | JBool bool
  | JNum int
  | JStr string
  | JDate "int option"
  | JArr "jsval list"
  | JObj "(string \<times> jsval) list"

text \<open>The value of a property of an object literal or a parsed JSON object.\<close>

definition own_prop :: "(string \<times> jsval) list \<Rightarrow> string \<Rightarrow> jsval" where
  "own_prop kvs k = (case map_of kvs k of Some v \<Rightarrow> v | None \<Rightarrow> JUndefined)"

text \<open>
  Property access \<open>v.k\<close> for the keys the handlers read (\<open>transcript\<close>, \<open>tasks\<close>,
  \<open>task_description\<close>, \<open>assignee\<close>, \<open>due_date\<close>, \<open>priority\<close>): a TypeError (\<open>None\<close>) on
  \<open>undefined\<close> and \<open>null\<close>, the property of an object, and \<open>undefined\<close> on every other value.
\<close>

fun getProp :: "jsval \<Rightarrow> string \<Rightarrow> jsval option" where
  "getProp JUndefined k = None"
| "getProp JNull k = None"
| "getProp (JObj kvs) k = Some (own_prop kvs k)"
| "getProp v k = Some JUndefined"

fun truthy :: "jsval \<Rightarrow> bool" where
  "truthy JUndefined = False"
| "truthy JNull = False"
| "truthy (JBool b) = b"
| "truthy (JNum n) = (n \<noteq> 0)"
| "truthy (JStr s) = (s \<noteq> [])"
| "truthy v = True"

fun typeof :: "jsval \<Rightarrow> string" where
  "typeof JUndefined = ''undefined''"
| "typeof (JBool b) = ''boolean''"
| "typeof (JNum n) = ''number''"
| "typeof (JStr s) = ''string''"
| "typeof v = ''object''"

section \<open>The zod schemas (shared/schema.ts)\<close>

text \<open>A schema is its \<open>parse\<close> function; \<open>None\<close> is the ZodError it throws.\<close>

fun z_string :: "jsval \<Rightarrow> string option" where
  "z_string (JStr s) = Some s"
| "z_string v = None"

fun z_number :: "jsval \<Rightarrow> int option" where
  "z_number (JNum n) = Some n"
| "z_number v = None"

fun z_boolean :: "jsval \<Rightarrow> bool option" where
  "z_boolean (JBool b) = Some b"
| "z_boolean v = None"

fun z_date :: "jsval \<Rightarrow> int option" where
  "z_date (JDate (Some t)) = Some t"
| "z_date v = None"

definition z_enum :: "string list \<Rightarrow> jsval \<Rightarrow> string option" where
  "z_enum values v = (case v of JStr s \<Rightarrow> if s \<in> set values then Some s else None | _ \<Rightarrow> None)"

definition z_default :: "(jsval \<Rightarrow> 'a option) \<Rightarrow> 'a \<Rightarrow> jsval \<Rightarrow> 'a option" where
  "z_default schema d v = (if v = JUndefined then Some d else schema v)"

definition z_optional :: "(jsval \<Rightarrow> 'a option) \<Rightarrow> jsval \<Rightarrow> 'a option option" where
  "z_optional schema v = (if v = JUndefined then Some None else map_option Some (schema v))"

text \<open>
  The candidate the extractor produces and the review dialog edits. The fields \<open>assignee\<close> and
  \<open>priority\<close> carry the suffix \<open>_ex\<close> to keep them apart from the columns of the same name.
\<close>

record ExtractedTask =
  task_description :: string
  assignee_ex :: string
  due_date :: string
  priority_ex :: string

definition extractedTaskSchema :: "jsval \<Rightarrow> ExtractedTask option" where
  "extractedTaskSchema v =
     (case v of
        JObj kvs \<Rightarrow>
          (case (z_string (own_prop kvs ''task_description''),
                 z_string (own_prop kvs ''assignee''),
                 z_string (own_prop kvs ''due_date''),
                 z_default (z_enum [''P1'', ''P2'', ''P3'', ''P4'']) ''P3'' (own_prop kvs ''priority'')) of
             (Some d, Some a, Some dd, Some p) \<Rightarrow>
               Some \<lparr> task_description = d, assignee_ex = a, due_date = dd, priority_ex = p \<rparr>
           | _ \<Rightarrow> None)
      | _ \<Rightarrow> None)"

text \<open>
  \<open>insertTaskSchema\<close>: the columns of \<open>tasks\<close> without \<open>id\<close> and \<open>createdAt\<close>; \<open>text\<close> columns
  are strings (any string: the \<open>priority\<close> column is plain text), the timestamp is a valid
  \<open>Date\<close>, and the two columns with a default are optional.
\<close>

definition insertTaskSchema :: "jsval \<Rightarrow> InsertTask option" where
  "insertTaskSchema v =
     (case v of
        JObj kvs \<Rightarrow>
          (case (z_number (own_prop kvs ''userId''),
                 z_string (own_prop kvs ''description''),
                 z_string (own_prop kvs ''assignee''),
                 z_date (own_prop kvs ''dueDateUtc''),
                 z_string (own_prop kvs ''dueDateOriginal''),
                 z_optional z_string (own_prop kvs ''priority''),
                 z_optional z_boolean (own_prop kvs ''completed'')) of
             (Some u, Some d, Some a, Some t, Some orig, Some p, Some c) \<Rightarrow>
               Some \<lparr> userId = u, description = d, assignee = a, dueDateUtc = t,
                      dueDateOriginal = orig, priority = p, completed = c \<rparr>
           | _ \<Rightarrow> None)
      | _ \<Rightarrow> None)"

definition updateTaskSchema :: "jsval \<Rightarrow> UpdateTask option" where
  "updateTaskSchema v =
     (case v of
        JObj kvs \<Rightarrow>
          (case (z_optional z_string (own_prop kvs ''description''),
                 z_optional z_string (own_prop kvs ''assignee''),
                 z_optional z_date (own_prop kvs ''dueDateUtc''),
                 z_optional z_string (own_prop kvs ''dueDateOriginal''),
                 z_optional z_string (own_prop kvs ''priority''),
                 z_optional z_boolean (own_prop kvs ''completed'')) of
             (Some d, Some a, Some t, Some orig, Some p, Some c) \<Rightarrow>
               Some \<lparr> description_upd = d, assignee_upd = a, dueDateUtc_upd = t,
                      dueDateOriginal_upd = orig, priority_upd = p, completed_upd = c \<rparr>
           | _ \<Rightarrow> None)
      | _ \<Rightarrow> None)"

section \<open>Dates\<close>

text \<open>
  \<open>Date.prototype.toISOString\<close> on a valid date: \<open>YYYY-MM-DDTHH:mm:ss.sssZ\<close> in UTC, with the
  expanded six-digit year outside 0..9999. The calendar date is computed from the day number
  by the usual shift of the year to start in March.
\<close>

definition digit :: "nat \<Rightarrow> char" where
  "digit n = ''0123456789'' ! (n mod 10)"

definition pad2 :: "nat \<Rightarrow> string" where
  "pad2 n = [digit (n div 10), digit n]"

definition pad3 :: "nat \<Rightarrow> string" where
  "pad3 n = [digit (n div 100), digit (n div 10), digit n]"

definition pad4 :: "nat \<Rightarrow> string" where
  "pad4 n = [digit (n div 1000), digit (n div 100), digit (n div 10), digit n]"

definition pad6 :: "nat \<Rightarrow> string" where
  "pad6 n = [digit (n div 100000), digit (n div 10000)] @ pad4 n"

definition civil_from_days :: "int \<Rightarrow> int \<times> nat \<times> nat" where
  "civil_from_days z0 =
     (let z = z0 + 719468;
          era = z div 146097;
          doe = z - era * 146097;
          yoe = (doe - doe div 1460 + doe div 36524 - doe div 146096) div 365;
          doy = doe - (365 * yoe + yoe div 4 - yoe div 100);
          mp = (5 * doy + 2) div 153;
          d = doy - (153 * mp + 2) div 5 + 1;
          m = (if mp < 10 then mp + 3 else mp - 9);
          y = yoe + era * 400 + (if m \<le> 2 then 1 else 0)
      in (y, nat m, nat d))"

definition toISOString :: "int \<Rightarrow> string" where
  "toISOString t =
     (let (y, m, d) = civil_from_days (t div 86400000);
          ms = nat (t mod 86400000);
          year = (if 0 \<le> y \<and> y \<le> 9999 then pad4 (nat y)
                  else (if y < 0 then ''-'' else ''+'') @ pad6 (nat \<bar>y\<bar>))
      in year @ ''-'' @ pad2 m @ ''-'' @ pad2 d @ ''T'' @ pad2 (ms div 3600000) @ '':''
           @ pad2 (ms div 60000 mod 60) @ '':'' @ pad2 (ms div 1000 mod 60) @ ''.''
           @ pad3 (ms mod 1000) @ ''Z'')"

text \<open>
  \<open>d.setDate(d.getDate() + 1)\<close> moves a date to the same local time on the next calendar
  day of the time zone of the server: the date is turned into local time, a day is added to
  the day number, and the result is turned back into UTC and clipped to the range of time
  values (an invalid date outside it). \<open>localTime\<close> and \<open>utc\<close> are the two conversions of
  the time zone. Across a change of the clocks the result is 23 or 25 hours later.
\<close>

definition timeClip :: "int \<Rightarrow> int option" where
  "timeClip t = (if \<bar>t\<bar> \<le> 8640000000000000 then Some t else None)"

definition plusOneDay :: "(int \<Rightarrow> int) \<Rightarrow> (int \<Rightarrow> int) \<Rightarrow> int \<Rightarrow> int option" where
  "plusOneDay localTime utc t = timeClip (utc (localTime t + 86400000))"

section \<open>The server: clock, storage interface, responses\<close>

text \<open>
  The interface \<open>IStorage\<close> (task management part) as a record of operations on a storage
  state \<open>'s\<close>; creating a task reads the clock, whose value is an argument. \<open>createTask\<close>
  and \<open>updateTask\<close> may throw. The methods of \<open>MemStorage\<close> always return.
\<close>

record 's IStorage =
  getTasksByUserId :: "'s \<Rightarrow> int \<Rightarrow> Task list"
  createTask :: "'s \<Rightarrow> int \<Rightarrow> InsertTask \<Rightarrow> Task outcome \<times> 's"
  updateTask :: "'s \<Rightarrow> int \<Rightarrow> int \<Rightarrow> UpdateTask \<Rightarrow> Task option outcome \<times> 's"
  deleteTask :: "'s \<Rightarrow> int \<Rightarrow> int \<Rightarrow> bool \<times> 's"

definition resolves :: "'a \<times> 's \<Rightarrow> 'a outcome \<times> 's" where
  "resolves r = (Returns (fst r), snd r)"

definition memStorage :: "MemStorage IStorage" where
  "memStorage =
     \<lparr> getTasksByUserId = Mem_getTasksByUserId,
       createTask = (\<lambda>this now insertTask. resolves (Mem_createTask this now insertTask)),
       updateTask = (\<lambda>this ident uid updates. resolves (Mem_updateTask this ident uid updates)),
       deleteTask = Mem_deleteTask \<rparr>"

definition databaseStorage :: "Database IStorage" where
  "databaseStorage = \<lparr> getTasksByUserId = Db_getTasksByUserId, createTask = Db_createTask,
                        updateTask = Db_updateTask, deleteTask = Db_deleteTask \<rparr>"

text \<open>
  The state of the server process: the storage and the number of clock readings made so far.
  The clock of the machine is a parameter \<open>clock\<close>: \<open>reading\<close> gives the time read at the
  index of a reading, \<open>LocalTime\<close> and \<open>UTC\<close> are the conversions of its time zone between a
  time value and local time.
\<close>

record SystemClock =
  reading :: "nat \<Rightarrow> int"
  LocalTime :: "int \<Rightarrow> int"
  UTC :: "int \<Rightarrow> int"

record 's Server =
  storage :: 's
  clock_reads :: nat

definition Date_now :: "SystemClock \<Rightarrow> 's Server \<Rightarrow> int \<times> 's Server" where
  "Date_now clock srv =
     (reading clock (clock_reads srv), srv \<lparr> clock_reads := Suc (clock_reads srv) \<rparr>)"

datatype ResBody =
    JsonError string
  | JsonExtracted "ExtractedTask list" "string option"
  | JsonTasksLocal "(Task \<times> string) list"
  | JsonTasks "Task list"
  | JsonTask Task
  | NoContent

record Response =
  status :: nat
  body :: ResBody

definition errorResponse :: "nat \<Rightarrow> string \<Rightarrow> Response" where
  "errorResponse code msg = \<lparr> status = code, body = JsonError msg \<rparr>"

text \<open>\<open>req.user\<close> is \<open>None\<close> on a request without an authenticated session.\<close>

definition requireAuth :: "User option \<Rightarrow> (User \<Rightarrow> 'w \<Rightarrow> Response \<times> 'w) \<Rightarrow> 'w \<Rightarrow> Response \<times> 'w" where
  "requireAuth req_user next w =
     (case req_user of
        None \<Rightarrow> (errorResponse 401 ''Authentication required'', w)
      | Some user \<Rightarrow> next user w)"

text \<open>
  \<open>convertLocalToUtc\<close> returns \<open>new Date(localTimeString)\<close>. Its only caller passes the ISO
  string of a valid date, which \<open>new Date\<close> reads back to the same time value; the first
  argument is that date.
\<close>

definition convertLocalToUtc :: "int \<Rightarrow> string \<Rightarrow> int" where
  "convertLocalToUtc localDate tz = localDate"

definition convertUtcToLocal :: "int \<Rightarrow> string \<Rightarrow> string" where
  "convertUtcToLocal utcDate tz = toISOString utcDate"

section \<open>POST /api/extract-tasks\<close>

text \<open>
  The map/filter that validates the elements of the model's \<open>tasks\<close> array: an element the
  schema rejects becomes \<open>null\<close> and is filtered out.
\<close>

definition validatedTasks :: "jsval list \<Rightarrow> ExtractedTask list" where
  "validatedTasks ts = map the (filter (\<lambda>r. r \<noteq> None) (map extractedTaskSchema ts))"

text \<open>
  The handler behind \<open>requireAuth\<close>. \<open>llm\<close> is the completion call on the transcript:
  \<open>None\<close> when it throws, otherwise the \<open>content\<close> of the first choice (\<open>None\<close> for \<open>null\<close>).
  \<open>JSON_parse\<close> is \<open>JSON.parse\<close> (\<open>None\<close> when it throws). The state is the list of
  transcripts sent to the model so far.
\<close>

definition post_extract_tasks ::
  "(string \<Rightarrow> string option option) \<Rightarrow> (string \<Rightarrow> jsval option) \<Rightarrow> jsval \<Rightarrow>
   string list \<Rightarrow> Response \<times> string list" where
  "post_extract_tasks llm JSON_parse req_body calls =
     (case getProp req_body ''transcript'' of
        None \<Rightarrow> (errorResponse 500 ''Failed to extract tasks'', calls)
      | Some transcript \<Rightarrow>
          if \<not> truthy transcript \<or> typeof transcript \<noteq> ''string''
          then (errorResponse 400 ''Transcript is required'', calls)
          else
            (let content_text = (case transcript of JStr s \<Rightarrow> s | _ \<Rightarrow> []);
                 calls' = calls @ [content_text]
             in case llm content_text of
                  None \<Rightarrow> (errorResponse 500 ''Failed to extract tasks'', calls')
                | Some content \<Rightarrow>
                    (case JSON_parse (case content of
                                        None \<Rightarrow> ''{}''
                                      | Some c \<Rightarrow> if c = [] then ''{}'' else c) of
                       None \<Rightarrow> (errorResponse 500 ''Failed to extract tasks'', calls')
                     | Some result \<Rightarrow>
                         (case getProp result ''tasks'' of
                            None \<Rightarrow> (errorResponse 500 ''Failed to extract tasks'', calls')
                          | Some ts \<Rightarrow>
                              (case (if truthy ts then ts else JArr []) of
                                 JArr elems \<Rightarrow>
                                   (let validated = validatedTasks elems
                                    in if length validated = 0
                                       then (\<lparr> status = 200,
                                               body = JsonExtracted [] (Some ''No tasks found'') \<rparr>,
                                             calls')
                                       else (\<lparr> status = 200,
                                               body = JsonExtracted validated None \<rparr>, calls'))
                               | _ \<Rightarrow> (errorResponse 500 ''Failed to extract tasks'', calls'))))))"

section \<open>GET /api/tasks\<close>

definition get_tasks :: "'s IStorage \<Rightarrow> User \<Rightarrow> 's Server \<Rightarrow> Response \<times> 's Server" where
  "get_tasks S user srv =
     (let ts = getTasksByUserId S (storage srv) (user_id user);
          tasksWithLocalTime =
            map (\<lambda>task. (task, convertUtcToLocal (dueDateUtc task)
                                  (if timezone user = [] then ''UTC'' else timezone user))) ts
      in (\<lparr> status = 200, body = JsonTasksLocal tasksWithLocalTime \<rparr>, srv))"

section \<open>POST /api/tasks\<close>

text \<open>
  \<open>dateOf v\<close> is the time value of \<open>new Date(v)\<close>, \<open>None\<close> when it is \<open>NaN\<close>; how a string is
  read as a date is left to the JavaScript engine.
\<close>

text \<open>\<open>new Date()\<close> followed by \<open>setDate(getDate() + 1)\<close>; \<open>None\<close> is an invalid date.\<close>

definition tomorrow :: "SystemClock \<Rightarrow> 's Server \<Rightarrow> int option \<times> 's Server" where
  "tomorrow clock srv =
     (let (now, srv') = Date_now clock srv
      in (plusOneDay (LocalTime clock) (UTC clock) now, srv'))"

text \<open>
  The body of the loop over \<open>tasksToCreate\<close>. The inner \<open>try\<close> computes the due date; the
  outer \<open>try\<close> leaves \<open>createdTasks\<close> as it is when a property access, the schema or
  \<open>storage.createTask\<close> throws.
\<close>

definition createOne ::
  "'s IStorage \<Rightarrow> (jsval \<Rightarrow> int option) \<Rightarrow> SystemClock \<Rightarrow> User \<Rightarrow> jsval \<Rightarrow>
   Task list \<times> 's Server \<Rightarrow> Task list \<times> 's Server" where
  "createOne S dateOf clock user taskData acc =
     (let (createdTasks, srv) = acc;
          (dueDate, srv1) =
            (case getProp taskData ''due_date'' of
               None \<Rightarrow> tomorrow clock srv
             | Some v \<Rightarrow>
                 (case dateOf v of None \<Rightarrow> tomorrow clock srv | Some t \<Rightarrow> (Some t, srv)))
      in case (getProp taskData ''task_description'', getProp taskData ''assignee'',
               getProp taskData ''due_date'', getProp taskData ''priority'') of
           (Some d, Some a, Some dd, Some p) \<Rightarrow>
             (case insertTaskSchema
                     (JObj [(''userId'', JNum (user_id user)),
                            (''description'', d),
                            (''assignee'', a),
                            (''dueDateUtc'', JDate dueDate),
                            (''dueDateOriginal'', dd),
                            (''priority'', p),
                            (''completed'', JBool False)]) of
                None \<Rightarrow> (createdTasks, srv1)
              | Some taskToInsert \<Rightarrow>
                  (let (now, srv2) = Date_now clock srv1;
                       (result, st) = createTask S (storage srv2) now taskToInsert
                   in case result of
                        Returns createdTask \<Rightarrow>
                          (createdTasks @ [createdTask], srv2 \<lparr> storage := st \<rparr>)
                      | Throws \<Rightarrow> (createdTasks, srv2 \<lparr> storage := st \<rparr>)))
         | _ \<Rightarrow> (createdTasks, srv1))"

fun createLoop ::
  "'s IStorage \<Rightarrow> (jsval \<Rightarrow> int option) \<Rightarrow> SystemClock \<Rightarrow> User \<Rightarrow> jsval list \<Rightarrow>
   Task list \<times> 's Server \<Rightarrow> Task list \<times> 's Server" where
  "createLoop S dateOf clock user [] acc = acc"
| "createLoop S dateOf clock user (taskData # rest) acc =
     createLoop S dateOf clock user rest (createOne S dateOf clock user taskData acc)"

definition post_tasks ::
  "'s IStorage \<Rightarrow> (jsval \<Rightarrow> int option) \<Rightarrow> SystemClock \<Rightarrow> User \<Rightarrow> jsval \<Rightarrow>
   's Server \<Rightarrow> Response \<times> 's Server" where
  "post_tasks S dateOf clock user req_body srv =
     (case getProp req_body ''tasks'' of
        None \<Rightarrow> (errorResponse 500 ''Failed to create tasks'', srv)
      | Some (JArr tasksToCreate) \<Rightarrow>
          (let (createdTasks, srv') = createLoop S dateOf clock user tasksToCreate ([], srv)
           in (\<lparr> status = 201, body = JsonTasks createdTasks \<rparr>, srv'))
      | Some _ \<Rightarrow> (errorResponse 400 ''Tasks array is required'', srv))"

section \<open>PUT and DELETE /api/tasks/:id\<close>

text \<open>\<open>taskId\<close> is \<open>parseInt(req.params.id)\<close>, taken to be a number.\<close>

definition put_task ::
  "'s IStorage \<Rightarrow> User \<Rightarrow> int \<Rightarrow> jsval \<Rightarrow> 's Server \<Rightarrow> Response \<times> 's Server" where
  "put_task S user taskId req_body srv =
     (case updateTaskSchema req_body of
        None \<Rightarrow> (errorResponse 500 ''Failed to update task'', srv)
      | Some parsed \<Rightarrow>
          (let updates =
                 (case dueDateUtc_upd parsed of
                    None \<Rightarrow> parsed
                  | Some d \<Rightarrow>
                      parsed \<lparr> dueDateUtc_upd :=
                                 Some (convertLocalToUtc d
                                        (if timezone user = [] then ''UTC'' else timezone user)) \<rparr>);
               (result, st) = updateTask S (storage srv) taskId (user_id user) updates
           in case result of
                Throws \<Rightarrow> (errorResponse 500 ''Failed to update task'', srv \<lparr> storage := st \<rparr>)
              | Returns None \<Rightarrow> (errorResponse 404 ''Task not found'', srv \<lparr> storage := st \<rparr>)
              | Returns (Some task) \<Rightarrow>
                  (\<lparr> status = 200, body = JsonTask task \<rparr>, srv \<lparr> storage := st \<rparr>)))"

definition delete_task ::
  "'s IStorage \<Rightarrow> User \<Rightarrow> int \<Rightarrow> 's Server \<Rightarrow> Response \<times> 's Server" where
  "delete_task S user taskId srv =
     (let (deleted, st) = deleteTask S (storage srv) taskId (user_id user)
      in if \<not> deleted
         then (errorResponse 404 ''Task not found'', srv \<lparr> storage := st \<rparr>)
         else (\<lparr> status = 204, body = NoContent \<rparr>, srv \<lparr> storage := st \<rparr>))"

section \<open>The review dialog (client/src/components/task-review-modal.tsx)\<close>

text \<open>
  The state of the dialog: the working set \<open>tasks\<close> (field \<open>tasks_state\<close>), the toasts shown
  and the arguments of the calls of \<open>approveTasksMutation.mutate\<close>, each of which sends one
  bulk-create request.
\<close>

datatype Toast = Toast (title: string) (description_toast: string) (variant: "string option")

record ReviewModal =
  tasks_state :: "ExtractedTask list"
  toasts :: "Toast list"
  mutate_calls :: "ExtractedTask list list"

definition removeTask :: "ReviewModal \<Rightarrow> nat \<Rightarrow> ReviewModal" where
  "removeTask m index =
     m \<lparr> tasks_state := map snd (filter (\<lambda>(i, _). i \<noteq> index) (enumerate 0 (tasks_state m))) \<rparr>"

definition handleApproveAll :: "ReviewModal \<Rightarrow> ReviewModal" where
  "handleApproveAll m =
     (if length (tasks_state m) = 0
      then m \<lparr> toasts := toasts m @ [Toast ''No tasks to approve''
                                         ''Add at least one task before approving.''
                                         (Some ''destructive'')] \<rparr>
      else m \<lparr> mutate_calls := mutate_calls m @ [tasks_state m] \<rparr>)"

definition newTask :: ExtractedTask where
  "newTask = \<lparr> task_description = [], assignee_ex = [], due_date = [], priority_ex = ''P3'' \<rparr>"

definition addNewTask :: "ReviewModal \<Rightarrow> ReviewModal" where
  "addNewTask m = m \<lparr> tasks_state := tasks_state m @ [newTask] \<rparr>"

section \<open>Sequences of storage calls\<close>

text \<open>
  A client of \<open>IStorage\<close> observes the results of the calls it makes. \<open>run\<close> makes a
  sequence of calls on a storage, starting from a given state, and collects the results.
\<close>

datatype StorageCall =
    CallGetTasksByUserId int
  | CallCreateTask int InsertTask
  | CallUpdateTask int int UpdateTask
  | CallDeleteTask int int

datatype StorageResult =
    ResultTasks "Task list"
  | ResultTask Task
  | ResultMaybeTask "Task option"
  | ResultBool bool
  | ResultThrows

fun call :: "'s IStorage \<Rightarrow> 's \<Rightarrow> StorageCall \<Rightarrow> StorageResult \<times> 's" where
  "call S st (CallGetTasksByUserId uid) = (ResultTasks (getTasksByUserId S st uid), st)"
| "call S st (CallCreateTask now insertTask) =
     (let (r, st') = createTask S st now insertTask
      in (case r of Returns task \<Rightarrow> ResultTask task | Throws \<Rightarrow> ResultThrows, st'))"
| "call S st (CallUpdateTask ident uid updates) =
     (let (r, st') = updateTask S st ident uid updates
      in (case r of Returns t \<Rightarrow> ResultMaybeTask t | Throws \<Rightarrow> ResultThrows, st'))"
| "call S st (CallDeleteTask ident uid) =
     (let (r, st') = deleteTask S st ident uid in (ResultBool r, st'))"

fun run :: "'s IStorage \<Rightarrow> 's \<Rightarrow> StorageCall list \<Rightarrow> StorageResult list" where
  "run S st [] = []"
| "run S st (c # cs) = (let (r, st') = call S st c in r # run S st' cs)"

section \<open>Situations of a caller with respect to a task id\<close>

text \<open>
  A task with the id is stored and belongs to another user; no task with the id is stored.
\<close>

definition Mem_owned_by_other :: "MemStorage \<Rightarrow> int \<Rightarrow> int \<Rightarrow> bool" where
  "Mem_owned_by_other this ident uid =
     (case Map_get (tasks this) ident of None \<Rightarrow> False | Some task \<Rightarrow> userId task \<noteq> uid)"

definition Mem_absent :: "MemStorage \<Rightarrow> int \<Rightarrow> bool" where
  "Mem_absent this ident = (Map_get (tasks this) ident = None)"

definition Db_owned_by_other :: "Database \<Rightarrow> int \<Rightarrow> int \<Rightarrow> bool" where
  "Db_owned_by_other db ident uid =
     (case find (\<lambda>row. task_id row = ident) (tasks_rows db) of
        None \<Rightarrow> False
      | Some row \<Rightarrow> userId row \<noteq> uid)"

definition Db_absent :: "Database \<Rightarrow> int \<Rightarrow> bool" where
  "Db_absent db ident = (find (\<lambda>row. task_id row = ident) (tasks_rows db) = None)"

section \<open>Sample data\<close>

text \<open>A task of user 1, the insert it comes from, an update, and a second user.\<close>

definition alice_insert :: InsertTask where
  "alice_insert = \<lparr> userId = 1, description = ''Send the report'', assignee = ''Bob'',
      dueDateUtc = 1718236800000, dueDateOriginal = ''June 13'', priority = Some ''P2'',
      completed = Some False \<rparr>"

definition alice_task :: Task where
  "alice_task = \<lparr> userId = 1, description = ''Send the report'', assignee = ''Bob'',
      dueDateUtc = 1718236800000, dueDateOriginal = ''June 13'', priority = Some ''P2'',
      completed = Some False, task_id = 1, createdAt = Some 1718000000000 \<rparr>"

definition rename_update :: UpdateTask where
  "rename_update = \<lparr> description_upd = Some ''changed'', assignee_upd = None,
      dueDateUtc_upd = None, dueDateOriginal_upd = None, priority_upd = None,
      completed_upd = Some True \<rparr>"

definition bob :: User where
  "bob = \<lparr> user_id = 2, username = ''bob'', timezone = ''Asia/Tokyo'' \<rparr>"

definition mem_with_alice_task :: "MemStorage Server" where
  "mem_with_alice_task =
     \<lparr> storage = \<lparr> tasks = [(1, alice_task)], currentTaskId = 2 \<rparr>, clock_reads = 0 \<rparr>"

definition db_with_alice_task :: "Database Server" where
  "db_with_alice_task =
     \<lparr> storage = Db_new \<lparr> tasks_rows := [alice_task], tasks_id_seq := 2 \<rparr>, clock_reads = 0 \<rparr>"

definition mem_empty :: "MemStorage Server" where
  "mem_empty = \<lparr> storage = Mem_new, clock_reads = 0 \<rparr>"

definition db_empty :: "Database Server" where
  "db_empty = \<lparr> storage = Db_new, clock_reads = 0 \<rparr>"

section \<open>The request of the review dialog\<close>

text \<open>
  \<open>mutationFn\<close> of \<open>approveTasksMutation\<close> posts \<open>{ tasks: tasksToApprove }\<close> to
  \<open>/api/tasks\<close>; the server receives the candidates as parsed JSON objects.
\<close>

definition ExtractedTask_toJSON :: "ExtractedTask \<Rightarrow> jsval" where
  "ExtractedTask_toJSON t =
     JObj [(''task_description'', JStr (task_description t)),
           (''assignee'', JStr (assignee_ex t)),
           (''due_date'', JStr (due_date t)),
           (''priority'', JStr (priority_ex t))]"

definition mutationFn ::
  "'s IStorage \<Rightarrow> (jsval \<Rightarrow> int option) \<Rightarrow> SystemClock \<Rightarrow> User option \<Rightarrow>
   ExtractedTask list \<Rightarrow> 's Server \<Rightarrow> Response \<times> 's Server" where
  "mutationFn S dateOf clock req_user tasksToApprove srv =
     requireAuth req_user
       (\<lambda>user. post_tasks S dateOf clock user
                 (JObj [(''tasks'', JArr (map ExtractedTask_toJSON tasksToApprove))]))
       srv"

text \<open>
  A call of \<open>handleApproveAll\<close> in a browser whose session is \<open>req_user\<close>, together with
  the server's handling of the request of every call of \<open>mutate\<close> it has made. (The button
  that calls the function is disabled while the working set is empty.) The toasts of the
  callbacks \<open>onSuccess\<close> and \<open>onError\<close>, which run after the response, are left out.
\<close>

definition approveAll_click ::
  "'s IStorage \<Rightarrow> (jsval \<Rightarrow> int option) \<Rightarrow> SystemClock \<Rightarrow> User option \<Rightarrow>
   ReviewModal \<times> 's Server \<Rightarrow> ReviewModal \<times> 's Server" where
  "approveAll_click S dateOf clock req_user sys =
     (let (m, srv) = sys;
          m' = handleApproveAll m;
          sent = drop (length (mutate_calls m)) (mutate_calls m')
      in (m', foldl (\<lambda>s tasksToApprove. snd (mutationFn S dateOf clock req_user tasksToApprove s))
                    srv sent))"

section \<open>The routes behind requireAuth\<close>

definition route_post_extract_tasks ::
  "(string \<Rightarrow> string option option) \<Rightarrow> (string \<Rightarrow> jsval option) \<Rightarrow> User option \<Rightarrow> jsval \<Rightarrow>
   string list \<Rightarrow> Response \<times> string list" where
  "route_post_extract_tasks llm JSON_parse req_user req_body calls =
     requireAuth req_user (\<lambda>user. post_extract_tasks llm JSON_parse req_body) calls"

section \<open>Shapes of values\<close>

text \<open>A non-empty string, the transcript the extraction contract asks for.\<close>

definition nonEmptyString :: "jsval \<Rightarrow> bool" where
  "nonEmptyString v = (case v of JStr s \<Rightarrow> s \<noteq> [] | _ \<Rightarrow> False)"

definition isString :: "jsval \<Rightarrow> bool" where
  "isString v = (case v of JStr s \<Rightarrow> True | _ \<Rightarrow> False)"

definition stringOf :: "jsval \<Rightarrow> string" where
  "stringOf v = (case v of JStr s \<Rightarrow> s | _ \<Rightarrow> [])"

text \<open>The value of a property, \<open>undefined\<close> also where the access throws.\<close>

definition field :: "jsval \<Rightarrow> string \<Rightarrow> jsval" where
  "field v k = (case getProp v k of Some x \<Rightarrow> x | None \<Rightarrow> JUndefined)"

text \<open>
  A candidate as the specification defines it (\<open>ExtractedTaskCandidate\<close>): an object whose
  description, assignee and due-date text are strings and whose priority is one of \<open>P1\<close> to
  \<open>P4\<close>.
\<close>

definition isCandidate :: "jsval \<Rightarrow> bool" where
  "isCandidate taskData =
     (isString (field taskData ''task_description'') \<and> isString (field taskData ''assignee'')
      \<and> isString (field taskData ''due_date'')
      \<and> field taskData ''priority'' \<in> set [JStr ''P1'', JStr ''P2'', JStr ''P3'', JStr ''P4''])"

text \<open>
  The items of a bulk-create request that, whatever their due date, pass the persisted-task
  schema in the loop body: description, assignee and due-date text are strings, and the
  priority is a string, any string, or absent.
\<close>

definition insertable :: "jsval \<Rightarrow> bool" where
  "insertable taskData =
     (isString (field taskData ''task_description'') \<and> isString (field taskData ''assignee'')
      \<and> isString (field taskData ''due_date'')
      \<and> (field taskData ''priority'' = JUndefined \<or> isString (field taskData ''priority'')))"

definition item_priority :: "jsval \<Rightarrow> string option" where
  "item_priority taskData =
     (if isString (field taskData ''priority'')
      then Some (stringOf (field taskData ''priority'')) else None)"

text \<open>
  What a stored task shows of the item it comes from: owner, description, assignee, due-date
  text, priority and completion. \<open>MemStorage\<close> keeps an absent priority absent,
  the database stores its default.
\<close>

definition shown :: "Task \<Rightarrow> int \<times> string \<times> string \<times> string \<times> string option \<times> bool option" where
  "shown task = (userId task, description task, assignee task, dueDateOriginal task,
                 priority task, completed task)"

definition expected_mem ::
  "User \<Rightarrow> jsval \<Rightarrow> int \<times> string \<times> string \<times> string \<times> string option \<times> bool option" where
  "expected_mem user taskData =
     (user_id user, stringOf (field taskData ''task_description''),
      stringOf (field taskData ''assignee''), stringOf (field taskData ''due_date''),
      item_priority taskData, Some False)"

definition expected_db ::
  "User \<Rightarrow> jsval \<Rightarrow> int \<times> string \<times> string \<times> string \<times> string option \<times> bool option" where
  "expected_db user taskData =
     (user_id user, stringOf (field taskData ''task_description''),
      stringOf (field taskData ''assignee''), stringOf (field taskData ''due_date''),
      Some (case item_priority taskData of Some p \<Rightarrow> p | None \<Rightarrow> ''P3''), Some False)"

text \<open>
  A task created from an item: it shows the item, and its due date is the date the due-date
  text parses to, when it parses.
\<close>

definition parsed_due :: "(jsval \<Rightarrow> int option) \<Rightarrow> Task \<Rightarrow> jsval \<Rightarrow> bool" where
  "parsed_due dateOf task taskData =
     (case dateOf (field taskData ''due_date'') of Some d \<Rightarrow> dueDateUtc task = d | None \<Rightarrow> True)"

definition created_from_mem :: "(jsval \<Rightarrow> int option) \<Rightarrow> User \<Rightarrow> Task \<Rightarrow> jsval \<Rightarrow> bool" where
  "created_from_mem dateOf user task taskData =
     (shown task = expected_mem user taskData \<and> parsed_due dateOf task taskData)"

definition created_from_db :: "(jsval \<Rightarrow> int option) \<Rightarrow> User \<Rightarrow> Task \<Rightarrow> jsval \<Rightarrow> bool" where
  "created_from_db dateOf user task taskData =
     (shown task = expected_db user taskData \<and> parsed_due dateOf task taskData)"

text \<open>The texts of an item pass the check of a database.\<close>

definition db_texts_ok :: "Database \<Rightarrow> jsval \<Rightarrow> bool" where
  "db_texts_ok db taskData =
     (text_ok db (stringOf (field taskData ''task_description''))
      \<and> text_ok db (stringOf (field taskData ''assignee''))
      \<and> text_ok db (stringOf (field taskData ''due_date''))
      \<and> opt_ok (text_ok db) (item_priority taskData))"

text \<open>
  The items the database takes: they pass the schema, their texts pass the check of the
  database, and so does the date their due-date text parses to, when it parses.
\<close>

definition db_takes :: "Database \<Rightarrow> (jsval \<Rightarrow> int option) \<Rightarrow> jsval \<Rightarrow> bool" where
  "db_takes db dateOf taskData =
     (insertable taskData \<and> db_texts_ok db taskData
      \<and> opt_ok (timestamp_ok db) (dateOf (field taskData ''due_date'')))"

text \<open>
  Every reading of the clock has a valid next day, which satisfies \<open>ok\<close>: the fallback due
  date is a date, and one the storage takes.
\<close>

definition fallback_ok :: "SystemClock \<Rightarrow> (int \<Rightarrow> bool) \<Rightarrow> bool" where
  "fallback_ok clock ok =
     (\<forall>n. case plusOneDay (LocalTime clock) (UTC clock) (reading clock n) of
            None \<Rightarrow> False
          | Some d \<Rightarrow> ok d)"

text \<open>The keys of a \<open>MemStorage\<close> task map lie below the next id.\<close>

definition Mem_ids_fresh :: "MemStorage \<Rightarrow> bool" where
  "Mem_ids_fresh this = list_all (\<lambda>p. fst p < currentTaskId this) (tasks this)"

section \<open>The loop body on an item that passes the schema\<close>

text \<open>The due date the inner \<open>try\<close> computes, and the state after its clock reading.\<close>

definition dueDateOf ::
  "(jsval \<Rightarrow> int option) \<Rightarrow> SystemClock \<Rightarrow> jsval \<Rightarrow> 's Server \<Rightarrow> int option \<times> 's Server" where
  "dueDateOf dateOf clock taskData srv =
     (case getProp taskData ''due_date'' of
        None \<Rightarrow> tomorrow clock srv
      | Some v \<Rightarrow> (case dateOf v of None \<Rightarrow> tomorrow clock srv | Some t \<Rightarrow> (Some t, srv)))"

text \<open>The insert built from such an item and a due date.\<close>

definition insertOf :: "User \<Rightarrow> jsval \<Rightarrow> int \<Rightarrow> InsertTask" where
  "insertOf user taskData due =
     \<lparr> userId = user_id user,
       description = stringOf (field taskData ''task_description''),
       assignee = stringOf (field taskData ''assignee''),
       dueDateUtc = due,
       dueDateOriginal = stringOf (field taskData ''due_date''),
       priority = item_priority taskData,
       completed = Some False \<rparr>"

section \<open>What the bulk-create loop needs of a storage\<close>

text \<open>
  The columns of an insert as a stored task shows them, in \<open>MemStorage\<close> and in the database.
\<close>

definition view_mem ::
  "InsertTask \<Rightarrow> int \<times> string \<times> string \<times> string \<times> string option \<times> bool option" where
  "view_mem ins = (userId ins, description ins, assignee ins, dueDateOriginal ins,
                   priority ins, completed ins)"

definition view_db ::
  "InsertTask \<Rightarrow> int \<times> string \<times> string \<times> string \<times> string option \<times> bool option" where
  "view_db ins = (userId ins, description ins, assignee ins, dueDateOriginal ins,
                  Some (case priority ins of Some p \<Rightarrow> p | None \<Rightarrow> ''P3''),
                  Some (case completed ins of Some c \<Rightarrow> c | None \<Rightarrow> False))"

text \<open>
  In every state that satisfies \<open>I\<close>, \<open>createTask\<close> returns exactly on the inserts that
  satisfy \<open>ok\<close>: the task returned shows the insert, has its due date, and is appended to
  the tasks of its owner; when the method throws, the tasks of the owner are unchanged.
  \<open>I\<close> holds afterwards.
\<close>

definition creates ::
  "'s IStorage \<Rightarrow> ('s \<Rightarrow> bool) \<Rightarrow> (InsertTask \<Rightarrow> bool) \<Rightarrow>
   (InsertTask \<Rightarrow> int \<times> string \<times> string \<times> string \<times> string option \<times> bool option) \<Rightarrow> bool" where
  "creates S I ok view =
     (\<forall>st now ins. I st \<longrightarrow>
        (case createTask S st now ins of
           (Returns task, st') \<Rightarrow>
             ok ins \<and> I st' \<and> shown task = view ins \<and> dueDateUtc task = dueDateUtc ins
             \<and> getTasksByUserId S st' (userId ins) = getTasksByUserId S st (userId ins) @ [task]
         | (Throws, st') \<Rightarrow>
             \<not> ok ins \<and> I st'
             \<and> getTasksByUserId S st' (userId ins) = getTasksByUserId S st (userId ins)))"

text \<open>A database with the checks of \<open>db0\<close>.\<close>

definition same_checks :: "Database \<Rightarrow> Database \<Rightarrow> bool" where
  "same_checks db0 db = (text_ok db = text_ok db0 \<and> timestamp_ok db = timestamp_ok db0)"

section \<open>More sample data\<close>

text \<open>
  A date constructor that reads one ISO string and nothing else, a clock in the time zone
  UTC that advances by a millisecond per reading (for its first million readings), an update
  without a property, candidates (one with a NUL character at the end of its due-date text),
  a second task with the due date of the first, and states of the review dialog.
\<close>

definition sample_dateOf :: "jsval \<Rightarrow> int option" where
  "sample_dateOf v =
     (if v = JStr ''2024-06-13T00:00:00.000Z'' then Some 1718236800000 else None)"

definition sample_clock :: SystemClock where
  "sample_clock = \<lparr> reading = (\<lambda>n. 1718000000000 + int (min n 1000000)),
                     LocalTime = (\<lambda>t. t), UTC = (\<lambda>t. t) \<rparr>"

definition empty_update :: UpdateTask where
  "empty_update = \<lparr> description_upd = None, assignee_upd = None, dueDateUtc_upd = None,
      dueDateOriginal_upd = None, priority_upd = None, completed_upd = None \<rparr>"

definition good_item :: jsval where
  "good_item = JObj [(''task_description'', JStr ''Update the database schema''),
                     (''assignee'', JStr ''John''),
                     (''due_date'', JStr ''next Friday at noon''),
                     (''priority'', JStr ''P3'')]"

definition item_with_nul :: jsval where
  "item_with_nul = JObj [(''task_description'', JStr ''Call the vendor''),
                         (''assignee'', JStr ''Raj''),
                         (''due_date'', JStr (''soon'' @ [CHR 0x00])),
                         (''priority'', JStr ''P1'')]"

definition item_without_assignee :: jsval where
  "item_without_assignee = JObj [(''task_description'', JStr ''Review the draft''),
                                 (''due_date'', JStr ''Monday'')]"

definition item_without_priority :: "(string \<times> jsval) list" where
  "item_without_priority = [(''task_description'', JStr ''Review the draft''),
                            (''assignee'', JStr ''Ann''),
                            (''due_date'', JStr ''Monday'')]"

definition item_with_bad_priority :: "(string \<times> jsval) list" where
  "item_with_bad_priority = [(''task_description'', JStr ''Review the draft''),
                             (''assignee'', JStr ''Ann''),
                             (''due_date'', JStr ''Monday''),
                             (''priority'', JStr ''urgent'')]"

definition alice :: User where
  "alice = \<lparr> user_id = 1, username = ''alice'', timezone = ''America/New_York'' \<rparr>"

definition bob_task :: Task where
  "bob_task = \<lparr> userId = 2, description = ''Book the room'', assignee = ''Bob'',
      dueDateUtc = 1718236800000, dueDateOriginal = ''June 13'', priority = Some ''P3'',
      completed = Some False, task_id = 2, createdAt = Some 1718000000500 \<rparr>"

definition db_two_users :: "Database Server" where
  "db_two_users =
     \<lparr> storage = Db_new \<lparr> tasks_rows := [alice_task, bob_task], tasks_id_seq := 3 \<rparr>,
       clock_reads = 0 \<rparr>"

definition task_a :: ExtractedTask where
  "task_a = \<lparr> task_description = ''Send the report'', assignee_ex = ''Bob'',
              due_date = ''Friday'', priority_ex = ''P2'' \<rparr>"

definition task_b :: ExtractedTask where
  "task_b = \<lparr> task_description = ''Book the room'', assignee_ex = ''Ann'',
              due_date = ''Monday'', priority_ex = ''P3'' \<rparr>"

definition task_c :: ExtractedTask where
  "task_c = \<lparr> task_description = ''Call the vendor'', assignee_ex = ''Raj'',
              due_date = ''tomorrow'', priority_ex = ''P1'' \<rparr>"

definition modal_with_three :: ReviewModal where
  "modal_with_three = \<lparr> tasks_state = [task_a, task_b, task_c], toasts = [], mutate_calls = [] \<rparr>"

definition empty_modal :: ReviewModal where
  "empty_modal = \<lparr> tasks_state = [], toasts = [], mutate_calls = [] \<rparr>"

section \<open>Ownership checks of the two storages\<close>

lemma userId_applyUpdates [simp]: "userId (applyUpdates task updates) = userId task"
  by (simp add: applyUpdates_def)

lemma task_id_applyUpdates [simp]: "task_id (applyUpdates task updates) = task_id task"
  by (simp add: applyUpdates_def)

text \<open>
  \<open>MemStorage\<close> looks the task up and compares the owner before it writes: a call by another
  user returns the not-found value and the object is unchanged.
\<close>

lemma Mem_updateTask_non_owner:
  "Map_get (tasks this) ident = Some task \<Longrightarrow> userId task \<noteq> uid \<Longrightarrow>
   Mem_updateTask this ident uid updates = (None, this)"
  by (simp add: Mem_updateTask_def)

lemma Mem_deleteTask_non_owner:
  "Map_get (tasks this) ident = Some task \<Longrightarrow> userId task \<noteq> uid \<Longrightarrow>
   Mem_deleteTask this ident uid = (False, this)"
  by (simp add: Mem_deleteTask_def)

text \<open>The result of the database methods is decided by the first row with the id.\<close>

lemma fst_case_filter_find:
  "fst (case map g (filter P xs) of [] \<Rightarrow> (a, d) | y # _ \<Rightarrow> (f y, d)) =
   (case find P xs of None \<Rightarrow> a | Some x \<Rightarrow> f (g x))"
  by (induction xs) auto

lemma Db_updateTask_fst:
  "fst (Db_updateTask db ident uid updates) =
     (if sets_column updates \<and> update_ok db updates
      then Returns (case find (\<lambda>row. task_id row = ident) (tasks_rows db) of
                      None \<Rightarrow> None
                    | Some row \<Rightarrow> if userId row = uid then Some (applyUpdates row updates) else None)
      else Throws)"
  unfolding Db_updateTask_def Let_def
  by (simp add: fst_case_filter_find split: option.split)

lemma Db_deleteTask_fst:
  "fst (Db_deleteTask db ident uid) =
     (case find (\<lambda>row. task_id row = ident) (tasks_rows db) of
        None \<Rightarrow> False
      | Some row \<Rightarrow> userId row = uid)"
  unfolding Db_deleteTask_def Let_def
  using fst_case_filter_find [where g = "\<lambda>row. row"]
  by simp

text \<open>
  Claim C1, at the input where \<open>DatabaseStorage\<close> departs from it: the table holds one task
  of user 1, and user 2 calls \<open>updateTask\<close> and \<open>deleteTask\<close> with its id. Both calls
  report not-found, yet the first has rewritten the row and the second has removed it.
\<close>

theorem Db_non_owner_call_changes_stored_task:
  "Db_updateTask (storage db_with_alice_task) 1 2 rename_update =
     (Returns None,
      \<lparr> tasks_rows = [alice_task \<lparr> description := ''changed'', completed := Some True \<rparr>],
        tasks_id_seq = 2, text_ok = no_NUL, timestamp_ok = years_1_to_9999 \<rparr>)
   \<and> Db_deleteTask (storage db_with_alice_task) 1 2 =
     (False, \<lparr> tasks_rows = [], tasks_id_seq = 2, text_ok = no_NUL,
               timestamp_ok = years_1_to_9999 \<rparr>)"
  by (simp add: Db_updateTask_def Db_deleteTask_def db_with_alice_task_def Db_new_def
      alice_task_def rename_update_def applyUpdates_def sets_column_def update_ok_def
      opt_ok_def no_NUL_def)

text \<open>
  Claim C2 as stated fails: user 2 sends PUT with the body \<open>{}\<close> for the task of user 1 in
  the database. The body passes the update schema, \<open>DatabaseStorage.updateTask\<close> throws on
  the update without a property, and the handler answers 500, not 404.
\<close>

theorem put_empty_body_by_non_owner_is_500:
  "Db_owned_by_other (storage db_with_alice_task) 1 (user_id bob)
   \<and> updateTaskSchema (JObj []) = Some empty_update
   \<and> fst (Db_updateTask (storage db_with_alice_task) 1 (user_id bob) empty_update) = Throws
   \<and> fst (put_task databaseStorage bob 1 (JObj []) db_with_alice_task) =
       errorResponse 500 ''Failed to update task''"
  by (simp add: Db_owned_by_other_def db_with_alice_task_def Db_new_def alice_task_def bob_def
      updateTaskSchema_def own_prop_def z_optional_def empty_update_def put_task_def
      databaseStorage_def Db_updateTask_def sets_column_def)

text \<open>
  Claim C2, as amended: a caller who does not own the stored task with an id gets from
  \<open>updateTask\<close> and \<open>deleteTask\<close>, and from the PUT and DELETE handlers, what the caller gets
  when no task with the id is stored. In \<open>MemStorage\<close> that is the not-found value and
  false; PUT answers 404 once the body passes the update schema (500 before), DELETE 404.
  In \<open>DatabaseStorage\<close>, \<open>deleteTask\<close> returns false and DELETE answers 404; \<open>updateTask\<close>
  returns the not-found value and PUT answers 404 when the update has a property and its
  values pass the checks of the database, and otherwise \<open>updateTask\<close> throws and PUT
  answers 500, in both situations alike.
\<close>

theorem non_owner_indistinguishable_from_missing:
  assumes "Mem_owned_by_other (storage sm1) ident (user_id user)"
      and "Mem_absent (storage sm2) ident"
      and "Db_owned_by_other (storage sd1) ident (user_id user)"
      and "Db_absent (storage sd2) ident"
      and "text_ok (storage sd2) = text_ok (storage sd1)"
      and "timestamp_ok (storage sd2) = timestamp_ok (storage sd1)"
  shows "fst (Mem_updateTask (storage sm1) ident (user_id user) updates) = None
       \<and> fst (Mem_updateTask (storage sm2) ident (user_id user) updates) = None
       \<and> fst (Mem_deleteTask (storage sm1) ident (user_id user)) = False
       \<and> fst (Mem_deleteTask (storage sm2) ident (user_id user)) = False
       \<and> fst (Db_updateTask (storage sd1) ident (user_id user) updates) =
           (if sets_column updates \<and> update_ok (storage sd1) updates then Returns None
            else Throws)
       \<and> fst (Db_updateTask (storage sd2) ident (user_id user) updates) =
           fst (Db_updateTask (storage sd1) ident (user_id user) updates)
       \<and> fst (Db_deleteTask (storage sd1) ident (user_id user)) = False
       \<and> fst (Db_deleteTask (storage sd2) ident (user_id user)) = False
       \<and> fst (put_task memStorage user ident req_body sm1) =
           (if updateTaskSchema req_body = None then errorResponse 500 ''Failed to update task''
            else errorResponse 404 ''Task not found'')
       \<and> fst (put_task memStorage user ident req_body sm2) =
           fst (put_task memStorage user ident req_body sm1)
       \<and> fst (put_task databaseStorage user ident req_body sd1) =
           (case updateTaskSchema req_body of
              None \<Rightarrow> errorResponse 500 ''Failed to update task''
            | Some parsed \<Rightarrow>
                if sets_column parsed \<and> update_ok (storage sd1) parsed
                then errorResponse 404 ''Task not found''
                else errorResponse 500 ''Failed to update task'')
       \<and> fst (put_task databaseStorage user ident req_body sd2) =
           fst (put_task databaseStorage user ident req_body sd1)
       \<and> fst (delete_task memStorage user ident sm1) = errorResponse 404 ''Task not found''
       \<and> fst (delete_task memStorage user ident sm2) = errorResponse 404 ''Task not found''
       \<and> fst (delete_task databaseStorage user ident sd1) = errorResponse 404 ''Task not found''
       \<and> fst (delete_task databaseStorage user ident sd2) = errorResponse 404 ''Task not found''"
proof -
  have m1: "\<And>u. fst (Mem_updateTask (storage sm1) ident (user_id user) u) = None"
    and m1d: "fst (Mem_deleteTask (storage sm1) ident (user_id user)) = False"
    using assms(1)
    by (auto simp: Mem_owned_by_other_def Mem_updateTask_def Mem_deleteTask_def
        split: option.splits)
  have m2: "\<And>u. fst (Mem_updateTask (storage sm2) ident (user_id user) u) = None"
    and m2d: "fst (Mem_deleteTask (storage sm2) ident (user_id user)) = False"
    using assms(2) by (auto simp: Mem_absent_def Mem_updateTask_def Mem_deleteTask_def)
  have d1: "\<And>u. fst (Db_updateTask (storage sd1) ident (user_id user) u) =
           (if sets_column u \<and> update_ok (storage sd1) u then Returns None else Throws)"
    and d1d: "fst (Db_deleteTask (storage sd1) ident (user_id user)) = False"
    using assms(3)
    by (auto simp: Db_owned_by_other_def Db_updateTask_fst Db_deleteTask_fst
        split: option.splits)
  have same: "\<And>u. update_ok (storage sd2) u = update_ok (storage sd1) u"
    using assms(5,6) by (simp add: update_ok_def)
  have d2: "\<And>u. fst (Db_updateTask (storage sd2) ident (user_id user) u) =
           (if sets_column u \<and> update_ok (storage sd1) u then Returns None else Throws)"
    and d2d: "fst (Db_deleteTask (storage sd2) ident (user_id user)) = False"
    using assms(4) by (auto simp: Db_absent_def Db_updateTask_fst Db_deleteTask_fst same)
  have conv: "\<And>parsed. (case dueDateUtc_upd parsed of
                    None \<Rightarrow> parsed
                  | Some d \<Rightarrow>
                      parsed \<lparr> dueDateUtc_upd :=
                                 Some (convertLocalToUtc d
                                        (if timezone user = [] then ''UTC'' else timezone user)) \<rparr>)
                = parsed"
    by (simp add: convertLocalToUtc_def split: option.split)
  have putm: "\<And>srv. (\<And>u. fst (Mem_updateTask (storage srv) ident (user_id user) u) = None) \<Longrightarrow>
      fst (put_task memStorage user ident req_body srv) =
        (if updateTaskSchema req_body = None then errorResponse 500 ''Failed to update task''
         else errorResponse 404 ''Task not found'')"
    unfolding put_task_def conv
    by (simp add: memStorage_def resolves_def Let_def case_prod_beta split: option.splits)
  have putd: "\<And>srv. (\<And>u. fst (Db_updateTask (storage srv) ident (user_id user) u) =
           (if sets_column u \<and> update_ok (storage sd1) u then Returns None else Throws)) \<Longrightarrow>
      fst (put_task databaseStorage user ident req_body srv) =
        (case updateTaskSchema req_body of
              None \<Rightarrow> errorResponse 500 ''Failed to update task''
            | Some parsed \<Rightarrow>
                if sets_column parsed \<and> update_ok (storage sd1) parsed
                then errorResponse 404 ''Task not found''
                else errorResponse 500 ''Failed to update task'')"
    unfolding put_task_def conv
    by (simp add: databaseStorage_def Let_def case_prod_beta split: option.splits)
  have del: "\<And>S srv. fst (deleteTask S (storage srv) ident (user_id user)) = False \<Longrightarrow>
      fst (delete_task S user ident srv) = errorResponse 404 ''Task not found''"
    by (simp add: delete_task_def Let_def case_prod_beta)
  show ?thesis
    using m1 m1d m2 m2d d1 d1d d2 d2d
      putm [of sm1] putm [of sm2] putd [of sd1] putd [of sd2]
      del [of memStorage sm1] del [of memStorage sm2]
      del [of databaseStorage sd1] del [of databaseStorage sd2]
    by (simp add: memStorage_def databaseStorage_def)
qed

theorem non_owner_indistinguishable_from_missing_witness:
  "Mem_owned_by_other (storage mem_with_alice_task) 1 (user_id bob)
   \<and> Mem_absent (storage mem_empty) 1
   \<and> Db_owned_by_other (storage db_with_alice_task) 1 (user_id bob)
   \<and> Db_absent (storage db_empty) 1
   \<and> text_ok (storage db_empty) = text_ok (storage db_with_alice_task)
   \<and> timestamp_ok (storage db_empty) = timestamp_ok (storage db_with_alice_task)
   \<and> fst (put_task databaseStorage bob 1 (JObj [(''completed'', JBool True)]) db_with_alice_task)
       = errorResponse 404 ''Task not found''
   \<and> fst (put_task databaseStorage bob 1 (JObj [(''completed'', JBool True)]) db_empty)
       = errorResponse 404 ''Task not found''
   \<and> fst (put_task memStorage bob 1 (JObj [(''completed'', JBool True)]) mem_with_alice_task)
       = errorResponse 404 ''Task not found''
   \<and> fst (delete_task memStorage bob 1 mem_with_alice_task) = errorResponse 404 ''Task not found''
   \<and> fst (delete_task databaseStorage bob 1 db_empty) = errorResponse 404 ''Task not found''"
proof -
  have h1: "Mem_owned_by_other (storage mem_with_alice_task) 1 (user_id bob)"
    by (simp add: Mem_owned_by_other_def mem_with_alice_task_def Map_get_def alice_task_def
        bob_def)
  have h2: "Mem_absent (storage mem_empty) 1"
    by (simp add: Mem_absent_def mem_empty_def Mem_new_def Map_get_def)
  have h3: "Db_owned_by_other (storage db_with_alice_task) 1 (user_id bob)"
    by (simp add: Db_owned_by_other_def db_with_alice_task_def alice_task_def bob_def)
  have h4: "Db_absent (storage db_empty) 1"
    by (simp add: Db_absent_def db_empty_def Db_new_def)
  have h5: "text_ok (storage db_empty) = text_ok (storage db_with_alice_task)"
    and h6: "timestamp_ok (storage db_empty) = timestamp_ok (storage db_with_alice_task)"
    by (simp_all add: db_empty_def db_with_alice_task_def)
  have parses: "updateTaskSchema (JObj [(''completed'', JBool True)]) =
      Some \<lparr> description_upd = None, assignee_upd = None, dueDateUtc_upd = None,
             dueDateOriginal_upd = None, priority_upd = None, completed_upd = Some True \<rparr>"
    by (simp add: updateTaskSchema_def own_prop_def z_optional_def)
  have ok: "sets_column \<lparr> description_upd = None, assignee_upd = None, dueDateUtc_upd = None,
             dueDateOriginal_upd = None, priority_upd = None, completed_upd = Some True \<rparr>"
    "update_ok (storage db_with_alice_task)
        \<lparr> description_upd = None, assignee_upd = None, dueDateUtc_upd = None,
             dueDateOriginal_upd = None, priority_upd = None, completed_upd = Some True \<rparr>"
    by (simp_all add: sets_column_def update_ok_def opt_ok_def)
  show ?thesis
    using h1 h2 h3 h4 h5 h6 parses ok
      non_owner_indistinguishable_from_missing [OF h1 h2 h3 h4 h5 h6,
        where req_body = "JObj [(''completed'', JBool True)]" and updates = rename_update]
    by auto
qed

text \<open>
  Claim C10, at a sequence of calls on which the two storages differ: both start empty,
  user 1 creates a task, user 2 calls \<open>deleteTask\<close> with its id, and user 1 lists the own
  tasks. Every call but the last returns the same result in both; the list still holds the
  task in \<open>MemStorage\<close> and is empty in \<open>DatabaseStorage\<close>.
\<close>

theorem storages_differ_after_non_owner_delete:
  "run memStorage Mem_new
     [CallCreateTask 1718000000000 alice_insert, CallDeleteTask 1 2, CallGetTasksByUserId 1]
     = [ResultTask alice_task, ResultBool False, ResultTasks [alice_task]]
   \<and> run databaseStorage Db_new
     [CallCreateTask 1718000000000 alice_insert, CallDeleteTask 1 2, CallGetTasksByUserId 1]
     = [ResultTask alice_task, ResultBool False, ResultTasks []]"
proof -
  have ok: "insert_ok Db_new alice_insert"
    by (simp add: insert_ok_def Db_new_def alice_insert_def no_NUL_def years_1_to_9999_def
        opt_ok_def)
  show ?thesis
    using ok
    by (simp add: memStorage_def databaseStorage_def resolves_def Mem_new_def Mem_createTask_def
      Db_createTask_def Mem_deleteTask_def Db_deleteTask_def Mem_getTasksByUserId_def
      Db_getTasksByUserId_def alice_insert_def alice_task_def Map_get_def Map_values_def
      InsertTask.extend_def Task.fields_def Let_def Db_new_def)
qed

section \<open>Validation of the extracted elements\<close>

lemma validatedTasks_append: "validatedTasks (xs @ ys) = validatedTasks xs @ validatedTasks ys"
  by (simp add: validatedTasks_def)

lemma validatedTasks_Cons:
  "validatedTasks (v # vs) =
     (case extractedTaskSchema v of None \<Rightarrow> [] | Some t \<Rightarrow> [t]) @ validatedTasks vs"
  by (simp add: validatedTasks_def split: option.split)

lemma z_enum_priority:
  "z_enum [''P1'', ''P2'', ''P3'', ''P4''] v =
     (if v \<in> {JStr ''P1'', JStr ''P2'', JStr ''P3'', JStr ''P4''} then Some (stringOf v) else None)"
  by (cases v) (auto simp: z_enum_def stringOf_def)

text \<open>
  Claim C4: an element of the model's array whose \<open>priority\<close> is present and not one of
  \<open>P1\<close>..\<open>P4\<close> is rejected by the schema and left out of the validated list, whatever
  surrounds it; an element without \<open>priority\<close> whose three other properties are strings is
  kept, with priority \<open>P3\<close>.
\<close>

theorem invalid_priority_dropped_missing_priority_defaulted:
  assumes "own_prop kvs ''priority'' \<notin>
             {JUndefined, JStr ''P1'', JStr ''P2'', JStr ''P3'', JStr ''P4''}"
      and "own_prop kvs' ''priority'' = JUndefined"
      and "own_prop kvs' ''task_description'' = JStr d"
      and "own_prop kvs' ''assignee'' = JStr a"
      and "own_prop kvs' ''due_date'' = JStr dd"
  shows "extractedTaskSchema (JObj kvs) = None
       \<and> validatedTasks (before @ [JObj kvs] @ after) = validatedTasks before @ validatedTasks after
       \<and> extractedTaskSchema (JObj kvs') =
           Some \<lparr> task_description = d, assignee_ex = a, due_date = dd, priority_ex = ''P3'' \<rparr>
       \<and> validatedTasks (before @ [JObj kvs'] @ after) =
           validatedTasks before
           @ [\<lparr> task_description = d, assignee_ex = a, due_date = dd, priority_ex = ''P3'' \<rparr>]
           @ validatedTasks after"
proof -
  have bad: "extractedTaskSchema (JObj kvs) = None"
    using assms(1)
    by (auto simp: extractedTaskSchema_def z_default_def z_enum_priority split: option.splits)
  have good: "extractedTaskSchema (JObj kvs') =
      Some \<lparr> task_description = d, assignee_ex = a, due_date = dd, priority_ex = ''P3'' \<rparr>"
    using assms(2-5) by (simp add: extractedTaskSchema_def z_default_def)
  show ?thesis
    using bad good by (simp add: validatedTasks_append validatedTasks_Cons)
qed

section \<open>The review dialog\<close>

text \<open>
  Claim C5: with an empty working set, \<open>handleApproveAll\<close> shows the toast "No tasks to
  approve", calls \<open>mutate\<close> not at all, and leaves the working set as it is; no request
  reaches the server, whose state is unchanged.
\<close>

theorem approve_empty_set_rejected:
  assumes "tasks_state m = []"
  shows "approveAll_click S dateOf clock req_user (m, srv) =
           (m \<lparr> toasts := toasts m @ [Toast ''No tasks to approve''
                                              ''Add at least one task before approving.''
                                              (Some ''destructive'')] \<rparr>, srv)
         \<and> mutate_calls (handleApproveAll m) = mutate_calls m
         \<and> tasks_state (handleApproveAll m) = tasks_state m
         \<and> toasts (handleApproveAll m) =
             toasts m @ [Toast ''No tasks to approve'' ''Add at least one task before approving.''
                           (Some ''destructive'')]"
  using assms by (simp add: approveAll_click_def handleApproveAll_def)

lemma filter_enumerate_keep:
  "k < n \<Longrightarrow> map snd (filter (\<lambda>(i, _). i \<noteq> k) (enumerate n xs)) = xs"
  by (induction xs arbitrary: n) auto

lemma filter_enumerate_remove:
  "n \<le> k \<Longrightarrow> map snd (filter (\<lambda>(i, _). i \<noteq> k) (enumerate n xs))
     = take (k - n) xs @ drop (Suc (k - n)) xs"
proof (induction xs arbitrary: n)
  case Nil
  then show ?case by simp
next
  case (Cons x xs)
  show ?case
  proof (cases "n = k")
    case True
    then show ?thesis by (simp add: filter_enumerate_keep)
  next
    case False
    with Cons.prems have le: "Suc n \<le> k" by simp
    then have eq: "k - n = Suc (k - Suc n)" by simp
    from Cons.IH [OF le] False show ?thesis
      by (simp add: eq)
  qed
qed

text \<open>
  Claim C6: for a valid index, \<open>removeTask\<close> followed by \<open>addNewTask\<close> yields the elements
  before the index, the elements after it, and then the blank candidate
  (empty description, assignee and due date, priority \<open>P3\<close>).
\<close>

theorem remove_then_append:
  assumes "index < length (tasks_state m)"
  shows "tasks_state (addNewTask (removeTask m index)) =
           take index (tasks_state m) @ drop (Suc index) (tasks_state m) @ [newTask]
       \<and> last (tasks_state (addNewTask (removeTask m index))) =
           \<lparr> task_description = [], assignee_ex = [], due_date = [], priority_ex = ''P3'' \<rparr>
       \<and> butlast (tasks_state (addNewTask (removeTask m index))) =
           take index (tasks_state m) @ drop (Suc index) (tasks_state m)
       \<and> length (tasks_state (addNewTask (removeTask m index))) = length (tasks_state m)"
  using assms filter_enumerate_remove [of 0 index "tasks_state m"]
  by (simp add: addNewTask_def removeTask_def newTask_def butlast_append)

section \<open>The transcript guard\<close>

text \<open>
  Claim C8: when the \<open>transcript\<close> property of the request body is anything but a non-empty
  string (absent, empty, or of another type), the handler answers 400 "Transcript is
  required" and the list of model calls is unchanged; behind \<open>requireAuth\<close> the answer is
  401 without a session and 400 with one, and no model call is made in either case.
\<close>

theorem empty_transcript_rejected_before_model_call:
  assumes "getProp req_body ''transcript'' = Some transcript"
      and "\<not> nonEmptyString transcript"
  shows "post_extract_tasks llm JSON_parse req_body calls =
           (errorResponse 400 ''Transcript is required'', calls)
       \<and> snd (route_post_extract_tasks llm JSON_parse req_user req_body calls) = calls
       \<and> status (fst (route_post_extract_tasks llm JSON_parse req_user req_body calls)) =
           (if req_user = None then 401 else 400)"
proof -
  have guard: "\<not> truthy transcript \<or> typeof transcript \<noteq> ''string''"
    using assms(2) by (cases transcript) (auto simp: nonEmptyString_def)
  have h: "post_extract_tasks llm JSON_parse req_body calls =
           (errorResponse 400 ''Transcript is required'', calls)"
    using assms(1) guard by (simp add: post_extract_tasks_def)
  show ?thesis
    using h by (simp add: route_post_extract_tasks_def requireAuth_def errorResponse_def
        split: option.split)
qed

text \<open>A non-empty string passes the guard: the model is called on it.\<close>

lemma non_empty_transcript_calls_model:
  "getProp req_body ''transcript'' = Some (JStr s) \<Longrightarrow> s \<noteq> [] \<Longrightarrow>
   snd (post_extract_tasks llm JSON_parse req_body calls) = calls @ [s]"
  by (simp add: post_extract_tasks_def Let_def split: option.splits jsval.splits)

section \<open>The local due date of the task list\<close>

text \<open>
  Claim C9, as amended: every task of the list carries the ISO string (UTC) of its stored due
  date, and the response does not depend on the time zone of the caller.
\<close>

theorem due_date_local_is_utc_iso_string:
  "fst (get_tasks S user srv) =
     \<lparr> status = 200,
       body = JsonTasksLocal (map (\<lambda>task. (task, toISOString (dueDateUtc task)))
                                  (getTasksByUserId S (storage srv) (user_id user))) \<rparr>
   \<and> get_tasks S (user \<lparr> timezone := tz \<rparr>) srv = get_tasks S user srv"
  by (simp add: get_tasks_def convertUtcToLocal_def)

section \<open>Bulk creation\<close>

lemma getProp_field: "getProp v k = Some x \<Longrightarrow> field v k = x"
  by (simp add: field_def)

lemma insertable_getProp:
  assumes "insertable taskData"
  shows "getProp taskData k = Some (field taskData k)"
proof (cases "getProp taskData ''task_description''")
  case None
  then have "field taskData ''task_description'' = JUndefined" by (simp add: field_def)
  with assms show ?thesis by (simp add: insertable_def isString_def)
next
  case (Some x)
  then show ?thesis by (cases taskData) (simp_all add: field_def)
qed

lemma isCandidate_insertable: "isCandidate taskData \<Longrightarrow> insertable taskData"
  by (auto simp: isCandidate_def insertable_def isString_def)

lemma opt_ok_True [simp]: "opt_ok (\<lambda>x. True) v"
  by (simp add: opt_ok_def split: option.split)

lemma Date_now_storage [simp]: "storage (snd (Date_now clock srv)) = storage srv"
  by (simp add: Date_now_def)

lemma dueDateOf_storage [simp]: "storage (snd (dueDateOf dateOf clock taskData srv)) = storage srv"
  by (simp add: dueDateOf_def tomorrow_def Date_now_def split: option.splits)

lemma z_string_eq: "z_string v = (if isString v then Some (stringOf v) else None)"
  by (cases v) (simp_all add: isString_def stringOf_def)

lemma z_optional_z_string_eq:
  "z_optional z_string v =
     (if v = JUndefined then Some None
      else if isString v then Some (Some (stringOf v)) else None)"
  by (simp add: z_optional_def z_string_eq)

lemma isString_not_undefined: "isString v \<Longrightarrow> v \<noteq> JUndefined"
  by (auto simp: isString_def)

text \<open>The schema accepts the object of the loop body on the insertable items with a valid date.\<close>

lemma insertTaskSchema_candidate:
  "insertTaskSchema
     (JObj [(''userId'', JNum (user_id user)),
            (''description'', field taskData ''task_description''),
            (''assignee'', field taskData ''assignee''),
            (''dueDateUtc'', JDate due),
            (''dueDateOriginal'', field taskData ''due_date''),
            (''priority'', field taskData ''priority''),
            (''completed'', JBool False)]) =
     (case due of
        None \<Rightarrow> None
      | Some d \<Rightarrow> if insertable taskData then Some (insertOf user taskData d) else None)"
  unfolding insertTaskSchema_def insertOf_def insertable_def item_priority_def
  by (cases due)
     (auto simp: own_prop_def z_string_eq z_optional_z_string_eq z_optional_def
      dest: isString_not_undefined)

lemma createOne_insertable:
  assumes "insertable taskData"
  shows "createOne S dateOf clock user taskData (created, srv) =
     (let (due, srv1) = dueDateOf dateOf clock taskData srv
      in case due of
           None \<Rightarrow> (created, srv1)
         | Some d \<Rightarrow>
             (let (now, srv2) = Date_now clock srv1;
                  (result, st) = createTask S (storage srv2) now (insertOf user taskData d)
              in case result of
                   Returns task \<Rightarrow> (created @ [task], srv2 \<lparr> storage := st \<rparr>)
                 | Throws \<Rightarrow> (created, srv2 \<lparr> storage := st \<rparr>)))"
  unfolding createOne_def dueDateOf_def [symmetric]
  by (simp add: insertable_getProp [OF assms] insertTaskSchema_candidate assms
      Let_def case_prod_beta split: option.split outcome.split)

lemma createOne_not_insertable:
  assumes "\<not> insertable taskData"
  shows "createOne S dateOf clock user taskData (created, srv) =
           (created, snd (dueDateOf dateOf clock taskData srv))"
proof (cases "getProp taskData ''task_description''")
  case None
  then have "\<And>k. getProp taskData k = None" by (cases taskData) simp_all
  then show ?thesis
    unfolding createOne_def dueDateOf_def [symmetric]
    by (simp add: Let_def case_prod_beta)
next
  case (Some x)
  then have "\<And>k. getProp taskData k = Some (field taskData k)"
    by (cases taskData) (simp_all add: field_def)
  then show ?thesis
    unfolding createOne_def dueDateOf_def [symmetric]
    by (simp add: Let_def case_prod_beta insertTaskSchema_candidate assms split: option.split)
qed

text \<open>The due date of an insertable item: the parsed date, or the next day of the reading.\<close>

lemma dueDateOf_insertable:
  assumes "insertable taskData"
  shows "fst (dueDateOf dateOf clock taskData srv) =
     (case dateOf (field taskData ''due_date'') of
        Some t \<Rightarrow> Some t
      | None \<Rightarrow> plusOneDay (LocalTime clock) (UTC clock) (reading clock (clock_reads srv)))"
  by (simp add: dueDateOf_def insertable_getProp [OF assms] tomorrow_def Date_now_def
      split: option.split)

lemma dueDateOf_fallback_ok:
  assumes "insertable taskData" and "fallback_ok clock dok"
  obtains d where "fst (dueDateOf dateOf clock taskData srv) = Some d"
    and "dok d = opt_ok dok (dateOf (field taskData ''due_date''))"
    and "case dateOf (field taskData ''due_date'') of Some t \<Rightarrow> d = t | None \<Rightarrow> True"
proof (cases "dateOf (field taskData ''due_date'')")
  case None
  from assms(2) obtain d where
    d: "plusOneDay (LocalTime clock) (UTC clock) (reading clock (clock_reads srv)) = Some d" "dok d"
    unfolding fallback_ok_def
    by (metis (mono_tags, lifting) option.case_eq_if option.collapse)
  with None show ?thesis
    using that [of d] by (simp add: dueDateOf_insertable [OF assms(1)] opt_ok_def)
next
  case (Some t)
  then show ?thesis
    using that [of t] by (simp add: dueDateOf_insertable [OF assms(1)] opt_ok_def)
qed

lemma Map_set_fresh: "list_all (\<lambda>p. fst p \<noteq> k) m \<Longrightarrow> Map_set m k v = m @ [(k, v)]"
  by (induction m) auto

lemma Mem_createTask_task:
  "fst (Mem_createTask this now ins) =
     InsertTask.extend ins (Task.fields (currentTaskId this) (Some now))"
  by (simp add: Mem_createTask_def Let_def)

lemma extend_fields [simp]:
  "userId (InsertTask.extend ins ext) = userId ins"
  "description (InsertTask.extend ins ext) = description ins"
  "assignee (InsertTask.extend ins ext) = assignee ins"
  "dueDateUtc (InsertTask.extend ins ext) = dueDateUtc ins"
  "dueDateOriginal (InsertTask.extend ins ext) = dueDateOriginal ins"
  "priority (InsertTask.extend ins ext) = priority ins"
  "completed (InsertTask.extend ins ext) = completed ins"
  by (simp_all add: InsertTask.extend_def)

lemma Mem_createTask_tasks:
  assumes "Mem_ids_fresh this"
  shows "tasks (snd (Mem_createTask this now ins)) =
           tasks this @ [(currentTaskId this, fst (Mem_createTask this now ins))]"
    and "Mem_ids_fresh (snd (Mem_createTask this now ins))"
proof -
  from assms have "list_all (\<lambda>p. fst p \<noteq> currentTaskId this) (tasks this)"
    by (auto simp: Mem_ids_fresh_def list_all_iff)
  then show "tasks (snd (Mem_createTask this now ins)) =
           tasks this @ [(currentTaskId this, fst (Mem_createTask this now ins))]"
    by (simp add: Mem_createTask_def Let_def Map_set_fresh)
  with assms show "Mem_ids_fresh (snd (Mem_createTask this now ins))"
    by (auto simp: Mem_ids_fresh_def list_all_iff Mem_createTask_def Let_def)
qed

text \<open>\<open>MemStorage\<close> creates on every insert, the database on the inserts it admits.\<close>

lemma Mem_creates: "creates memStorage Mem_ids_fresh (\<lambda>ins. True) view_mem"
  unfolding creates_def
proof (intro allI impI)
  fix st :: MemStorage and now ins
  assume "Mem_ids_fresh st"
  from Mem_createTask_tasks [OF this, of now ins]
  show "case createTask memStorage st now ins of
          (Returns task, st') \<Rightarrow>
            True \<and> Mem_ids_fresh st' \<and> shown task = view_mem ins
            \<and> dueDateUtc task = dueDateUtc ins
            \<and> getTasksByUserId memStorage st' (userId ins) =
                getTasksByUserId memStorage st (userId ins) @ [task]
        | (Throws, st') \<Rightarrow>
            \<not> True \<and> Mem_ids_fresh st'
            \<and> getTasksByUserId memStorage st' (userId ins) =
                getTasksByUserId memStorage st (userId ins)"
    by (simp add: memStorage_def resolves_def shown_def view_mem_def Mem_createTask_task
        Mem_getTasksByUserId_def Map_values_def)
qed

lemma Db_creates: "creates databaseStorage (same_checks db0) (insert_ok db0) view_db"
  unfolding creates_def
proof (intro allI impI)
  fix st :: Database and now ins
  assume "same_checks db0 st"
  then have ok: "insert_ok st ins = insert_ok db0 ins"
    by (simp add: same_checks_def insert_ok_def)
  show "case createTask databaseStorage st now ins of
          (Returns task, st') \<Rightarrow>
            insert_ok db0 ins \<and> same_checks db0 st' \<and> shown task = view_db ins
            \<and> dueDateUtc task = dueDateUtc ins
            \<and> getTasksByUserId databaseStorage st' (userId ins) =
                getTasksByUserId databaseStorage st (userId ins) @ [task]
        | (Throws, st') \<Rightarrow>
            \<not> insert_ok db0 ins \<and> same_checks db0 st'
            \<and> getTasksByUserId databaseStorage st' (userId ins) =
                getTasksByUserId databaseStorage st (userId ins)"
    using \<open>same_checks db0 st\<close>
    by (simp add: databaseStorage_def Db_createTask_def ok Let_def shown_def view_db_def
        Db_getTasksByUserId_def same_checks_def)
qed

text \<open>
  One iteration of the loop, for a storage that creates on the inserts satisfying \<open>ok\<close>,
  where \<open>ok\<close> on the insert of an item amounts to \<open>texts\<close> of the item and \<open>dok\<close> of the due
  date.
\<close>

lemma createOne_step:
  assumes cr: "creates S I ok view"
    and okdef: "\<And>d. ok (insertOf user taskData d) = (texts taskData \<and> dok d)"
    and fb: "fallback_ok clock dok"
    and I: "I (storage srv)"
  shows "I (storage (snd (createOne S dateOf clock user taskData (created, srv))))
       \<and> (if insertable taskData \<and> texts taskData
             \<and> opt_ok dok (dateOf (field taskData ''due_date''))
          then \<exists>task. fst (createOne S dateOf clock user taskData (created, srv)) = created @ [task]
                 \<and> shown task = view (insertOf user taskData (dueDateUtc task))
                 \<and> parsed_due dateOf task taskData
                 \<and> getTasksByUserId S
                      (storage (snd (createOne S dateOf clock user taskData (created, srv))))
                      (user_id user) =
                    getTasksByUserId S (storage srv) (user_id user) @ [task]
          else fst (createOne S dateOf clock user taskData (created, srv)) = created
                 \<and> getTasksByUserId S
                      (storage (snd (createOne S dateOf clock user taskData (created, srv))))
                      (user_id user) =
                    getTasksByUserId S (storage srv) (user_id user))"
proof (cases "insertable taskData")
  case False
  then show ?thesis using I by (simp add: createOne_not_insertable)
next
  case True
  from dueDateOf_fallback_ok [OF True fb, of dateOf srv]
  obtain d where d: "fst (dueDateOf dateOf clock taskData srv) = Some d"
    and dok: "dok d = opt_ok dok (dateOf (field taskData ''due_date''))"
    and parsed: "case dateOf (field taskData ''due_date'') of Some t \<Rightarrow> d = t | None \<Rightarrow> True"
    by blast
  let ?srv1 = "snd (dueDateOf dateOf clock taskData srv)"
  let ?now = "fst (Date_now clock ?srv1)"
  let ?srv2 = "snd (Date_now clock ?srv1)"
  let ?ins = "insertOf user taskData d"
  let ?r = "createTask S (storage srv) ?now ?ins"
  have one: "createOne S dateOf clock user taskData (created, srv) =
      (case fst ?r of
         Returns task \<Rightarrow> (created @ [task], ?srv2 \<lparr> storage := snd ?r \<rparr>)
       | Throws \<Rightarrow> (created, ?srv2 \<lparr> storage := snd ?r \<rparr>))"
    by (simp add: createOne_insertable [OF True] d Let_def case_prod_beta split: outcome.split)
  have uid: "userId ?ins = user_id user" by (simp add: insertOf_def)
  note c = cr [unfolded creates_def, rule_format, OF I, where now = ?now and ins = ?ins]
  have due: "dueDateUtc ?ins = d" by (simp add: insertOf_def)
  show ?thesis
  proof (cases "fst ?r")
    case (Returns task)
    with c have "ok ?ins" "I (snd ?r)" "shown task = view ?ins" "dueDateUtc task = d"
      "getTasksByUserId S (snd ?r) (user_id user) =
         getTasksByUserId S (storage srv) (user_id user) @ [task]"
      by (simp_all add: case_prod_beta uid due)
    moreover from this(4) parsed have "parsed_due dateOf task taskData"
      by (simp add: parsed_due_def split: option.splits)
    ultimately show ?thesis
      using True Returns okdef [of d] dok by (simp add: one)
  next
    case Throws
    with c have "\<not> ok ?ins" "I (snd ?r)"
      "getTasksByUserId S (snd ?r) (user_id user) =
         getTasksByUserId S (storage srv) (user_id user)"
      by (simp_all add: case_prod_beta uid)
    then show ?thesis
      using True Throws okdef [of d] dok by (auto simp: one)
  qed
qed

text \<open>The loop: the tasks created are those of the items taken, in their order.\<close>

lemma createLoop_generic:
  assumes cr: "creates S I ok view"
    and okdef: "\<And>taskData d. ok (insertOf user taskData d) = (texts taskData \<and> dok d)"
    and vw: "\<And>taskData d. view (insertOf user taskData d) = expected taskData"
    and fb: "fallback_ok clock dok"
    and I: "I (storage srv)"
  shows "I (storage (snd (createLoop S dateOf clock user items (acc, srv))))
       \<and> (\<exists>new. fst (createLoop S dateOf clock user items (acc, srv)) = acc @ new
             \<and> list_all2 (\<lambda>task taskData. shown task = expected taskData
                                          \<and> parsed_due dateOf task taskData)
                  new
                  (filter (\<lambda>taskData. insertable taskData \<and> texts taskData
                             \<and> opt_ok dok (dateOf (field taskData ''due_date''))) items)
             \<and> getTasksByUserId S
                  (storage (snd (createLoop S dateOf clock user items (acc, srv)))) (user_id user) =
                getTasksByUserId S (storage srv) (user_id user) @ new)"
  using I
proof (induction items arbitrary: acc srv)
  case Nil
  then show ?case by simp
next
  case (Cons taskData rest)
  let ?takes = "\<lambda>taskData. insertable taskData \<and> texts taskData
                             \<and> opt_ok dok (dateOf (field taskData ''due_date''))"
  let ?one = "createOne S dateOf clock user taskData (acc, srv)"
  from createOne_step [OF cr okdef fb Cons.prems,
      where taskData = taskData and dateOf = dateOf and created = acc]
  have I1: "I (storage (snd ?one))"
    and step: "if ?takes taskData
          then \<exists>task. fst ?one = acc @ [task]
                 \<and> shown task = view (insertOf user taskData (dueDateUtc task))
                 \<and> parsed_due dateOf task taskData
                 \<and> getTasksByUserId S (storage (snd ?one)) (user_id user) =
                    getTasksByUserId S (storage srv) (user_id user) @ [task]
          else fst ?one = acc
                 \<and> getTasksByUserId S (storage (snd ?one)) (user_id user) =
                    getTasksByUserId S (storage srv) (user_id user)"
    by simp_all
  from Cons.IH [OF I1, of "fst ?one"]
  obtain new where new:
    "I (storage (snd (createLoop S dateOf clock user rest ?one)))"
    "fst (createLoop S dateOf clock user rest ?one) = fst ?one @ new"
    "list_all2 (\<lambda>task taskData. shown task = expected taskData \<and> parsed_due dateOf task taskData)
       new (filter ?takes rest)"
    "getTasksByUserId S (storage (snd (createLoop S dateOf clock user rest ?one))) (user_id user) =
       getTasksByUserId S (storage (snd ?one)) (user_id user) @ new"
    by auto
  show ?case
  proof (cases "?takes taskData")
    case True
    with step obtain task where t: "fst ?one = acc @ [task]"
      "shown task = view (insertOf user taskData (dueDateUtc task))"
      "parsed_due dateOf task taskData"
      "getTasksByUserId S (storage (snd ?one)) (user_id user) =
         getTasksByUserId S (storage srv) (user_id user) @ [task]"
      by auto
    show ?thesis
      apply (simp only: createLoop.simps)
      apply (rule conjI)
       apply (rule new(1))
      apply (rule exI [of _ "task # new"])
      using new(2-4) t True vw
      apply simp
      done
  next
    case False
    with step have t: "fst ?one = acc"
      "getTasksByUserId S (storage (snd ?one)) (user_id user) =
         getTasksByUserId S (storage srv) (user_id user)"
      by auto
    show ?thesis
      apply (simp only: createLoop.simps)
      apply (rule conjI)
       apply (rule new(1))
      apply (rule exI [of _ new])
      using new(2-4) t False
      apply auto
      done
  qed
qed

text \<open>
  Claim C7 as stated fails: a request of user 2 with an item whose priority is \<open>urgent\<close>
  and a well-formed item. The first item is no candidate, and the extraction schema rejects
  it, yet the handler persists it, priority included, next to the second.
\<close>

theorem item_with_priority_outside_enum_is_persisted:
  "\<not> isCandidate (JObj item_with_bad_priority)
   \<and> extractedTaskSchema (JObj item_with_bad_priority) = None
   \<and> isCandidate good_item
   \<and> post_tasks databaseStorage sample_dateOf sample_clock bob
        (JObj [(''tasks'', JArr [JObj item_with_bad_priority, good_item])]) db_empty =
       (\<lparr> status = 201,
          body = JsonTasks
            [\<lparr> userId = 2, description = ''Review the draft'', assignee = ''Ann'',
               dueDateUtc = 1718086400000, dueDateOriginal = ''Monday'',
               priority = Some ''urgent'', completed = Some False, task_id = 1,
               createdAt = Some 1718000000001 \<rparr>,
             \<lparr> userId = 2, description = ''Update the database schema'', assignee = ''John'',
               dueDateUtc = 1718086400002, dueDateOriginal = ''next Friday at noon'',
               priority = Some ''P3'', completed = Some False, task_id = 2,
               createdAt = Some 1718000000003 \<rparr>] \<rparr>,
        \<lparr> storage = Db_new
            \<lparr> tasks_rows :=
                [\<lparr> userId = 2, description = ''Review the draft'', assignee = ''Ann'',
                   dueDateUtc = 1718086400000, dueDateOriginal = ''Monday'',
                   priority = Some ''urgent'', completed = Some False, task_id = 1,
                   createdAt = Some 1718000000001 \<rparr>,
                 \<lparr> userId = 2, description = ''Update the database schema'',
                   assignee = ''John'', dueDateUtc = 1718086400002,
                   dueDateOriginal = ''next Friday at noon'', priority = Some ''P3'',
                   completed = Some False, task_id = 2, createdAt = Some 1718000000003 \<rparr>],
              tasks_id_seq := 3 \<rparr>,
          clock_reads = 4 \<rparr>)"
  by (simp add: isCandidate_def field_def item_with_bad_priority_def good_item_def own_prop_def
      isString_def extractedTaskSchema_def z_default_def z_enum_def
      post_tasks_def createOne_def sample_dateOf_def tomorrow_def Date_now_def sample_clock_def
      plusOneDay_def timeClip_def insertTaskSchema_def z_optional_def databaseStorage_def
      Db_createTask_def insert_ok_def opt_ok_def no_NUL_def years_1_to_9999_def db_empty_def
      Db_new_def bob_def Let_def InsertTask.extend_def Task.fields_def)

text \<open>
  Claim C7, as amended: a bulk-create request with an array of items is answered with 201
  and the list of the tasks created, one for every item taken, in the order of the request;
  each is owned by the caller, shows the description, assignee, due-date text and priority
  of its item, is not completed, and has the due date its text parses to, when it parses;
  these tasks are appended to the tasks the caller has in the storage, and the other items
  leave no trace in the response or in the storage. \<open>MemStorage\<close> takes the items that pass
  the persisted-task schema: description, assignee and due-date text are strings, the
  priority is any string or absent (and then stays absent). The database takes those of
  them whose texts and parsed date pass its checks, and stores \<open>P3\<close> for an absent priority.
  Assumed: the keys of the \<open>MemStorage\<close> task map lie below \<open>currentTaskId\<close>, and the next
  day of every clock reading is a date, one the database admits.
\<close>

theorem bulk_create_skips_malformed_items:
  assumes "getProp req_body ''tasks'' = Some (JArr items)"
      and "Mem_ids_fresh (storage sm)"
      and "fallback_ok clock (\<lambda>d. True)"
      and "fallback_ok clock (timestamp_ok (storage sd))"
  shows "(\<exists>created.
            fst (post_tasks memStorage dateOf clock user req_body sm) =
              \<lparr> status = 201, body = JsonTasks created \<rparr>
          \<and> list_all2 (created_from_mem dateOf user) created (filter insertable items)
          \<and> Mem_getTasksByUserId (storage (snd (post_tasks memStorage dateOf clock user req_body sm)))
               (user_id user) =
             Mem_getTasksByUserId (storage sm) (user_id user) @ created)
       \<and> (\<exists>created.
            fst (post_tasks databaseStorage dateOf clock user req_body sd) =
              \<lparr> status = 201, body = JsonTasks created \<rparr>
          \<and> list_all2 (created_from_db dateOf user) created
               (filter (db_takes (storage sd) dateOf) items)
          \<and> Db_getTasksByUserId (storage (snd (post_tasks databaseStorage dateOf clock user req_body sd)))
               (user_id user) =
             Db_getTasksByUserId (storage sd) (user_id user) @ created)"
proof -
  have mem: "getTasksByUserId memStorage = Mem_getTasksByUserId"
    and db: "getTasksByUserId databaseStorage = Db_getTasksByUserId"
    by (simp_all add: memStorage_def databaseStorage_def)
  have post: "\<And>S srv. post_tasks S dateOf clock user req_body srv =
     (\<lparr> status = 201, body = JsonTasks (fst (createLoop S dateOf clock user items ([], srv))) \<rparr>,
      snd (createLoop S dateOf clock user items ([], srv)))"
    using assms(1) by (simp add: post_tasks_def case_prod_beta)
  have fm: "created_from_mem dateOf user =
      (\<lambda>task taskData. shown task = expected_mem user taskData \<and> parsed_due dateOf task taskData)"
    by (intro ext) (simp add: created_from_mem_def)
  have fd: "created_from_db dateOf user =
      (\<lambda>task taskData. shown task = expected_db user taskData \<and> parsed_due dateOf task taskData)"
    by (intro ext) (simp add: created_from_db_def)
  have tm: "insertable =
      (\<lambda>taskData. insertable taskData \<and> True
          \<and> opt_ok (\<lambda>d. True) (dateOf (field taskData ''due_date'')))"
    by (intro ext) simp
  have td: "db_takes (storage sd) dateOf =
      (\<lambda>taskData. insertable taskData \<and> db_texts_ok (storage sd) taskData
          \<and> opt_ok (timestamp_ok (storage sd)) (dateOf (field taskData ''due_date'')))"
    by (intro ext) (simp add: db_takes_def)
  have vm: "\<And>taskData d. view_mem (insertOf user taskData d) = expected_mem user taskData"
    by (simp add: view_mem_def insertOf_def expected_mem_def)
  have vd: "\<And>taskData d. view_db (insertOf user taskData d) = expected_db user taskData"
    by (simp add: view_db_def insertOf_def expected_db_def)
  have od: "\<And>taskData d. insert_ok (storage sd) (insertOf user taskData d) =
      (db_texts_ok (storage sd) taskData \<and> timestamp_ok (storage sd) d)"
    by (auto simp: insert_ok_def insertOf_def db_texts_ok_def)
  have sc: "same_checks (storage sd) (storage sd)" by (simp add: same_checks_def)
  from createLoop_generic [where S = memStorage and I = Mem_ids_fresh and ok = "\<lambda>ins. True"
      and view = view_mem and texts = "\<lambda>taskData. True" and dok = "\<lambda>d. True"
      and expected = "expected_mem user" and user = user and clock = clock and srv = sm
      and dateOf = dateOf and items = items and acc = "[]",
      OF Mem_creates _ vm assms(3) assms(2)]
  have 1: "\<exists>created.
            fst (post_tasks memStorage dateOf clock user req_body sm) =
              \<lparr> status = 201, body = JsonTasks created \<rparr>
          \<and> list_all2 (created_from_mem dateOf user) created (filter insertable items)
          \<and> Mem_getTasksByUserId (storage (snd (post_tasks memStorage dateOf clock user req_body sm)))
               (user_id user) =
             Mem_getTasksByUserId (storage sm) (user_id user) @ created"
    unfolding post fm mem
    by (subst tm) auto
  from createLoop_generic [where S = databaseStorage and I = "same_checks (storage sd)"
      and ok = "insert_ok (storage sd)" and view = view_db
      and texts = "db_texts_ok (storage sd)" and dok = "timestamp_ok (storage sd)"
      and expected = "expected_db user" and user = user and clock = clock and srv = sd
      and dateOf = dateOf and items = items and acc = "[]",
      OF Db_creates od vd assms(4) sc]
  have 2: "\<exists>created.
            fst (post_tasks databaseStorage dateOf clock user req_body sd) =
              \<lparr> status = 201, body = JsonTasks created \<rparr>
          \<and> list_all2 (created_from_db dateOf user) created
               (filter (db_takes (storage sd) dateOf) items)
          \<and> Db_getTasksByUserId (storage (snd (post_tasks databaseStorage dateOf clock user req_body sd)))
               (user_id user) =
             Db_getTasksByUserId (storage sd) (user_id user) @ created"
    unfolding post fd td db
    by auto
  from 1 2 show ?thesis by blast
qed

text \<open>
  One iteration on an insertable item whose due date is a date the storage admits: exactly
  one task is created, it shows the insert, and it is appended to the tasks of the caller.
\<close>

lemma createOne_created:
  assumes ins: "insertable taskData"
    and due: "fst (dueDateOf dateOf clock taskData srv) = Some d"
    and cr: "creates S I ok view"
    and I: "I (storage srv)"
    and ok: "ok (insertOf user taskData d)"
  shows "\<exists>task. fst (createOne S dateOf clock user taskData (created, srv)) = created @ [task]
           \<and> shown task = view (insertOf user taskData d)
           \<and> dueDateUtc task = d
           \<and> getTasksByUserId S
                (storage (snd (createOne S dateOf clock user taskData (created, srv))))
                (user_id user) =
              getTasksByUserId S (storage srv) (user_id user) @ [task]"
proof -
  let ?srv1 = "snd (dueDateOf dateOf clock taskData srv)"
  let ?now = "fst (Date_now clock ?srv1)"
  let ?srv2 = "snd (Date_now clock ?srv1)"
  let ?ins = "insertOf user taskData d"
  let ?r = "createTask S (storage srv) ?now ?ins"
  have one: "createOne S dateOf clock user taskData (created, srv) =
      (case fst ?r of
         Returns task \<Rightarrow> (created @ [task], ?srv2 \<lparr> storage := snd ?r \<rparr>)
       | Throws \<Rightarrow> (created, ?srv2 \<lparr> storage := snd ?r \<rparr>))"
    by (simp add: createOne_insertable [OF ins] due Let_def case_prod_beta split: outcome.split)
  have uid: "userId ?ins = user_id user" and dd: "dueDateUtc ?ins = d"
    by (simp_all add: insertOf_def)
  note c = cr [unfolded creates_def, rule_format, OF I, where now = ?now and ins = ?ins]
  show ?thesis
  proof (cases "fst ?r")
    case (Returns task)
    with c show ?thesis
      by (simp add: one case_prod_beta uid dd)
  next
    case Throws
    with c ok show ?thesis
      by (simp add: case_prod_beta)
  qed
qed

text \<open>
  Claim C3 as stated fails: a candidate whose due-date text does not parse and ends with a
  NUL character, sent to the database. The due date falls back to the next day, the insert
  is refused for the text, and the item is rejected: no task is created.
\<close>

theorem candidate_with_refused_text_is_rejected:
  "isCandidate item_with_nul
   \<and> sample_dateOf (field item_with_nul ''due_date'') = None
   \<and> post_tasks databaseStorage sample_dateOf sample_clock bob
        (JObj [(''tasks'', JArr [item_with_nul])]) db_empty =
       (\<lparr> status = 201, body = JsonTasks [] \<rparr>, \<lparr> storage = Db_new, clock_reads = 2 \<rparr>)"
  by (simp add: isCandidate_def field_def item_with_nul_def own_prop_def isString_def
      post_tasks_def createOne_def sample_dateOf_def tomorrow_def Date_now_def sample_clock_def
      plusOneDay_def timeClip_def insertTaskSchema_def z_optional_def databaseStorage_def
      Db_createTask_def insert_ok_def opt_ok_def no_NUL_def years_1_to_9999_def db_empty_def
      Db_new_def bob_def Let_def)

text \<open>
  Claim C3, as amended: a candidate with due-date text \<open>s\<close> whose values the storage admits
  adds exactly one task to \<open>createdTasks\<close> and to the stored tasks of the caller; its
  \<open>dueDateOriginal\<close> is \<open>s\<close>, and its \<open>dueDateUtc\<close> is the date \<open>s\<close> parses to or, when it does
  not parse, the next day of the clock reading (\<open>setDate(getDate() + 1)\<close> on \<open>new Date()\<close>:
  the same local time on the next calendar day of the server). \<open>MemStorage\<close> admits every
  value; assumed are that the next day is a date and that the keys of the \<open>MemStorage\<close>
  task map lie below \<open>currentTaskId\<close>.
\<close>

theorem unparsed_due_date_falls_back_and_keeps_text:
  assumes "isCandidate taskData"
      and "field taskData ''due_date'' = JStr s"
      and "(case dateOf (JStr s) of
              Some t \<Rightarrow> Some t
            | None \<Rightarrow> plusOneDay (LocalTime clock) (UTC clock) (reading clock (clock_reads sm)))
           = Some due_m"
      and "Mem_ids_fresh (storage sm)"
      and "(case dateOf (JStr s) of
              Some t \<Rightarrow> Some t
            | None \<Rightarrow> plusOneDay (LocalTime clock) (UTC clock) (reading clock (clock_reads sd)))
           = Some due_d"
      and "insert_ok (storage sd) (insertOf user taskData due_d)"
  shows "(\<exists>task.
            fst (createOne memStorage dateOf clock user taskData (created, sm)) = created @ [task]
          \<and> dueDateOriginal task = s \<and> dueDateUtc task = due_m
          \<and> Mem_getTasksByUserId
               (storage (snd (createOne memStorage dateOf clock user taskData (created, sm))))
               (user_id user) =
             Mem_getTasksByUserId (storage sm) (user_id user) @ [task])
       \<and> (\<exists>task.
            fst (createOne databaseStorage dateOf clock user taskData (created, sd)) = created @ [task]
          \<and> dueDateOriginal task = s \<and> dueDateUtc task = due_d
          \<and> Db_getTasksByUserId
               (storage (snd (createOne databaseStorage dateOf clock user taskData (created, sd))))
               (user_id user) =
             Db_getTasksByUserId (storage sd) (user_id user) @ [task])"
proof -
  have ins: "insertable taskData" using assms(1) by (rule isCandidate_insertable)
  have dm: "fst (dueDateOf dateOf clock taskData sm) = Some due_m"
    and dd: "fst (dueDateOf dateOf clock taskData sd) = Some due_d"
    using assms(2,3,5) by (simp_all add: dueDateOf_insertable [OF ins])
  have mem: "getTasksByUserId memStorage = Mem_getTasksByUserId"
    and db: "getTasksByUserId databaseStorage = Db_getTasksByUserId"
    by (simp_all add: memStorage_def databaseStorage_def)
  have sc: "same_checks (storage sd) (storage sd)" by (simp add: same_checks_def)
  from createOne_created [OF ins dm Mem_creates assms(4), of user created]
  have 1: "\<exists>task.
            fst (createOne memStorage dateOf clock user taskData (created, sm)) = created @ [task]
          \<and> dueDateOriginal task = s \<and> dueDateUtc task = due_m
          \<and> Mem_getTasksByUserId
               (storage (snd (createOne memStorage dateOf clock user taskData (created, sm))))
               (user_id user) =
             Mem_getTasksByUserId (storage sm) (user_id user) @ [task]"
    using assms(2) by (auto simp: mem shown_def view_mem_def insertOf_def stringOf_def)
  from createOne_created [OF ins dd Db_creates sc assms(6), of created]
  have 2: "\<exists>task.
            fst (createOne databaseStorage dateOf clock user taskData (created, sd)) = created @ [task]
          \<and> dueDateOriginal task = s \<and> dueDateUtc task = due_d
          \<and> Db_getTasksByUserId
               (storage (snd (createOne databaseStorage dateOf clock user taskData (created, sd))))
               (user_id user) =
             Db_getTasksByUserId (storage sd) (user_id user) @ [task]"
    using assms(2) by (auto simp: db shown_def view_db_def insertOf_def stringOf_def)
  from 1 2 show ?thesis by blast
qed

section \<open>The theorems at concrete inputs\<close>

text \<open>
  An element with priority \<open>urgent\<close> followed by one without priority: only the second is
  in the validated list, with priority \<open>P3\<close>.
\<close>

theorem invalid_priority_dropped_missing_priority_defaulted_witness:
  "own_prop item_with_bad_priority ''priority'' \<notin>
     {JUndefined, JStr ''P1'', JStr ''P2'', JStr ''P3'', JStr ''P4''}
   \<and> own_prop item_without_priority ''priority'' = JUndefined
   \<and> validatedTasks [JObj item_with_bad_priority, JObj item_without_priority] =
       [\<lparr> task_description = ''Review the draft'', assignee_ex = ''Ann'', due_date = ''Monday'',
          priority_ex = ''P3'' \<rparr>]"
proof -
  have h1: "own_prop item_with_bad_priority ''priority'' \<notin>
     {JUndefined, JStr ''P1'', JStr ''P2'', JStr ''P3'', JStr ''P4''}"
    by (simp add: item_with_bad_priority_def own_prop_def)
  have h2: "own_prop item_without_priority ''priority'' = JUndefined"
    "own_prop item_without_priority ''task_description'' = JStr ''Review the draft''"
    "own_prop item_without_priority ''assignee'' = JStr ''Ann''"
    "own_prop item_without_priority ''due_date'' = JStr ''Monday''"
    by (simp_all add: item_without_priority_def own_prop_def)
  from invalid_priority_dropped_missing_priority_defaulted [OF h1 h2,
      where before = "[JObj item_with_bad_priority]" and after = "[]"]
  show ?thesis using h1 h2(1) by (simp add: validatedTasks_def)
qed

text \<open>Approving the empty working set against a database that holds one task.\<close>

theorem approve_empty_set_rejected_witness:
  "tasks_state empty_modal = []
   \<and> approveAll_click databaseStorage sample_dateOf sample_clock (Some bob) (empty_modal, db_with_alice_task)
       = (\<lparr> tasks_state = [],
            toasts = [Toast ''No tasks to approve'' ''Add at least one task before approving.''
                        (Some ''destructive'')],
            mutate_calls = [] \<rparr>, db_with_alice_task)"
proof -
  have h: "tasks_state empty_modal = []" by (simp add: empty_modal_def)
  from approve_empty_set_rejected [OF h, of databaseStorage sample_dateOf sample_clock "Some bob" db_with_alice_task]
  show ?thesis using h by (simp add: empty_modal_def)
qed

text \<open>Removing the second of three candidates and appending a blank one.\<close>

theorem remove_then_append_witness:
  "1 < length (tasks_state modal_with_three)
   \<and> tasks_state (addNewTask (removeTask modal_with_three 1)) = [task_a, task_c, newTask]"
proof -
  have h: "1 < length (tasks_state modal_with_three)" by (simp add: modal_with_three_def)
  from remove_then_append [OF h] show ?thesis using h by (simp add: modal_with_three_def)
qed

text \<open>A request with the empty transcript and a request without a transcript.\<close>

theorem empty_transcript_rejected_before_model_call_witness:
  "getProp (JObj [(''transcript'', JStr [])]) ''transcript'' = Some (JStr [])
   \<and> \<not> nonEmptyString (JStr [])
   \<and> getProp (JObj []) ''transcript'' = Some JUndefined
   \<and> \<not> nonEmptyString JUndefined
   \<and> post_extract_tasks (\<lambda>s. None) (\<lambda>s. None) (JObj [(''transcript'', JStr [])]) []
       = (\<lparr> status = 400, body = JsonError ''Transcript is required'' \<rparr>, [])
   \<and> post_extract_tasks (\<lambda>s. None) (\<lambda>s. None) (JObj []) []
       = (\<lparr> status = 400, body = JsonError ''Transcript is required'' \<rparr>, [])"
proof -
  have h1: "getProp (JObj [(''transcript'', JStr [])]) ''transcript'' = Some (JStr [])"
    and h2: "\<not> nonEmptyString (JStr [])"
    and h3: "getProp (JObj []) ''transcript'' = Some JUndefined"
    and h4: "\<not> nonEmptyString JUndefined"
    by (simp_all add: own_prop_def nonEmptyString_def)
  from empty_transcript_rejected_before_model_call [OF h1 h2, of "\<lambda>s. None" "\<lambda>s. None" "[]"]
    empty_transcript_rejected_before_model_call [OF h3 h4, of "\<lambda>s. None" "\<lambda>s. None" "[]"]
  show ?thesis using h1 h2 h3 h4 by (simp add: errorResponse_def)
qed

text \<open>
  Claim C9 as stated fails: two tasks with the same stored due date, 2024-06-13 00:00 UTC,
  one of a user in \<open>America/New_York\<close> and one of a user in \<open>Asia/Tokyo\<close>. Both users
  receive the same string, the UTC rendering, where the local renderings would be
  2024-06-12 20:00 and 2024-06-13 09:00.
\<close>

theorem due_date_local_same_in_two_time_zones:
  "timezone alice \<noteq> timezone bob
   \<and> fst (get_tasks databaseStorage alice db_two_users) =
       \<lparr> status = 200, body = JsonTasksLocal [(alice_task, ''2024-06-13T00:00:00.000Z'')] \<rparr>
   \<and> fst (get_tasks databaseStorage bob db_two_users) =
       \<lparr> status = 200, body = JsonTasksLocal [(bob_task, ''2024-06-13T00:00:00.000Z'')] \<rparr>"
proof -
  have c: "civil_from_days 19887 = (2024, 6, 13)" by code_simp
  have d: "(1718236800000::int) div 86400000 = 19887" by simp
  have m: "(1718236800000::int) mod 86400000 = 0" by simp
  have iso: "toISOString 1718236800000 = ''2024-06-13T00:00:00.000Z''"
    unfolding toISOString_def d m c
    by (simp add: pad2_def pad3_def pad4_def digit_def)
  have a: "dueDateUtc alice_task = 1718236800000" and b: "dueDateUtc bob_task = 1718236800000"
    and ua: "userId alice_task = 1" and ub: "userId bob_task = 2"
    by (simp_all add: alice_task_def bob_task_def)
  show ?thesis
    by (simp add: get_tasks_def databaseStorage_def Db_getTasksByUserId_def db_two_users_def
      alice_def bob_def convertUtcToLocal_def iso a b ua ub)
qed

text \<open>
  In a time zone with a fixed offset the next day is 24 hours later, while that is a time
  value.
\<close>

lemma plusOneDay_fixed_offset:
  "\<bar>t + 86400000\<bar> \<le> 8640000000000000 \<Longrightarrow>
   plusOneDay (\<lambda>u. u + offset) (\<lambda>l. l - offset) t = Some (t + 86400000)"
  by (simp add: plusOneDay_def timeClip_def)

lemma fallback_ok_sample_clock:
  "fallback_ok sample_clock (\<lambda>d. True)" "fallback_ok sample_clock years_1_to_9999"
  by (auto simp: fallback_ok_def sample_clock_def plusOneDay_def timeClip_def
      years_1_to_9999_def min_def)

text \<open>
  A candidate whose due-date text the date constructor does not read, created in the empty
  storages at clock reading 0: the due date is the next day of that reading, the text is
  kept, and the task is stored.
\<close>

theorem unparsed_due_date_falls_back_and_keeps_text_witness:
  "isCandidate good_item
   \<and> field good_item ''due_date'' = JStr ''next Friday at noon''
   \<and> sample_dateOf (JStr ''next Friday at noon'') = None
   \<and> plusOneDay (LocalTime sample_clock) (UTC sample_clock)
        (reading sample_clock (clock_reads db_empty)) = Some 1718086400000
   \<and> Mem_ids_fresh (storage mem_empty)
   \<and> insert_ok (storage db_empty) (insertOf bob good_item 1718086400000)
   \<and> plusOneDay (LocalTime sample_clock) (UTC sample_clock)
        (reading sample_clock (clock_reads mem_empty)) = Some 1718086400000
   \<and> Mem_getTasksByUserId
        (storage (snd (createOne memStorage sample_dateOf sample_clock bob good_item
                         ([], mem_empty)))) 2 =
       [\<lparr> userId = 2, description = ''Update the database schema'', assignee = ''John'',
          dueDateUtc = 1718086400000, dueDateOriginal = ''next Friday at noon'',
          priority = Some ''P3'', completed = Some False, task_id = 1,
          createdAt = Some 1718000000001 \<rparr>]
   \<and> fst (createOne databaseStorage sample_dateOf sample_clock bob good_item ([], db_empty)) =
       [\<lparr> userId = 2, description = ''Update the database schema'', assignee = ''John'',
          dueDateUtc = 1718086400000, dueDateOriginal = ''next Friday at noon'',
          priority = Some ''P3'', completed = Some False, task_id = 1,
          createdAt = Some 1718000000001 \<rparr>]
   \<and> Db_getTasksByUserId
        (storage (snd (createOne databaseStorage sample_dateOf sample_clock bob good_item
                         ([], db_empty)))) 2 =
       [\<lparr> userId = 2, description = ''Update the database schema'', assignee = ''John'',
          dueDateUtc = 1718086400000, dueDateOriginal = ''next Friday at noon'',
          priority = Some ''P3'', completed = Some False, task_id = 1,
          createdAt = Some 1718000000001 \<rparr>]"
proof -
  have h1: "isCandidate good_item"
    by (simp add: isCandidate_def good_item_def field_def own_prop_def isString_def)
  have h2: "field good_item ''due_date'' = JStr ''next Friday at noon''"
    by (simp add: good_item_def field_def own_prop_def)
  have h0: "sample_dateOf (JStr ''next Friday at noon'') = None"
    by (simp add: sample_dateOf_def)
  have p: "plusOneDay (LocalTime sample_clock) (UTC sample_clock)
        (reading sample_clock (clock_reads db_empty)) = Some 1718086400000"
    "plusOneDay (LocalTime sample_clock) (UTC sample_clock)
        (reading sample_clock (clock_reads mem_empty)) = Some 1718086400000"
    by (simp_all add: plusOneDay_def timeClip_def sample_clock_def db_empty_def mem_empty_def)
  have h3: "(case sample_dateOf (JStr ''next Friday at noon'') of
              Some t \<Rightarrow> Some t
            | None \<Rightarrow> plusOneDay (LocalTime sample_clock) (UTC sample_clock)
                       (reading sample_clock (clock_reads mem_empty))) = Some 1718086400000"
    and h5: "(case sample_dateOf (JStr ''next Friday at noon'') of
              Some t \<Rightarrow> Some t
            | None \<Rightarrow> plusOneDay (LocalTime sample_clock) (UTC sample_clock)
                       (reading sample_clock (clock_reads db_empty))) = Some 1718086400000"
    by (simp_all add: h0 p)
  have h4: "Mem_ids_fresh (storage mem_empty)"
    by (simp add: Mem_ids_fresh_def mem_empty_def Mem_new_def)
  have h6: "insert_ok (storage db_empty) (insertOf bob good_item 1718086400000)"
    by (simp add: insert_ok_def insertOf_def item_priority_def db_empty_def Db_new_def
        good_item_def field_def own_prop_def stringOf_def isString_def opt_ok_def no_NUL_def
        years_1_to_9999_def)
  from unparsed_due_date_falls_back_and_keeps_text [where dateOf = sample_dateOf
      and clock = sample_clock and sm = mem_empty and sd = db_empty and user = bob
      and taskData = good_item and s = "''next Friday at noon''" and created = "[]",
      OF h1 h2 h3 h4 h5 h6]
  show ?thesis
    using h1 h2 h0 p h4 h6
    by (simp add: createOne_def good_item_def own_prop_def sample_dateOf_def tomorrow_def
      Date_now_def sample_clock_def plusOneDay_def timeClip_def insertTaskSchema_def
      z_optional_def databaseStorage_def Db_createTask_def Db_getTasksByUserId_def
      memStorage_def resolves_def Mem_createTask_def Mem_getTasksByUserId_def Map_values_def
      mem_empty_def Mem_new_def
      insert_ok_def opt_ok_def no_NUL_def years_1_to_9999_def db_empty_def Db_new_def bob_def
      Let_def InsertTask.extend_def Task.fields_def)
qed

text \<open>
  A request of user 2 with an item that lacks the assignee and a well-formed one: the
  response holds one task, created from the second item.
\<close>

theorem bulk_create_skips_malformed_items_witness:
  "getProp (JObj [(''tasks'', JArr [item_without_assignee, good_item])]) ''tasks'' =
     Some (JArr [item_without_assignee, good_item])
   \<and> Mem_ids_fresh (storage mem_with_alice_task)
   \<and> fallback_ok sample_clock (\<lambda>d. True)
   \<and> fallback_ok sample_clock (timestamp_ok (storage db_empty))
   \<and> filter insertable [item_without_assignee, good_item] = [good_item]
   \<and> filter (db_takes (storage db_empty) sample_dateOf) [item_without_assignee, good_item] =
       [good_item]
   \<and> fst (post_tasks memStorage sample_dateOf sample_clock bob
            (JObj [(''tasks'', JArr [item_without_assignee, good_item])]) mem_with_alice_task) =
       \<lparr> status = 201,
         body = JsonTasks
           [\<lparr> userId = 2, description = ''Update the database schema'', assignee = ''John'',
              dueDateUtc = 1718086400001, dueDateOriginal = ''next Friday at noon'',
              priority = Some ''P3'', completed = Some False, task_id = 2,
              createdAt = Some 1718000000002 \<rparr>] \<rparr>"
proof -
  have h1: "getProp (JObj [(''tasks'', JArr [item_without_assignee, good_item])]) ''tasks'' =
     Some (JArr [item_without_assignee, good_item])"
    by (simp add: own_prop_def)
  have h2: "Mem_ids_fresh (storage mem_with_alice_task)"
    by (simp add: Mem_ids_fresh_def mem_with_alice_task_def)
  have h3: "fallback_ok sample_clock (\<lambda>d. True)"
    and h4: "fallback_ok sample_clock (timestamp_ok (storage db_empty))"
    using fallback_ok_sample_clock by (simp_all add: db_empty_def Db_new_def)
  have h5: "filter insertable [item_without_assignee, good_item] = [good_item]"
    by (simp add: insertable_def item_without_assignee_def good_item_def field_def own_prop_def
        isString_def)
  have h6: "filter (db_takes (storage db_empty) sample_dateOf)
              [item_without_assignee, good_item] = [good_item]"
    by (simp add: db_takes_def db_texts_ok_def insertable_def item_without_assignee_def
        good_item_def field_def own_prop_def isString_def stringOf_def item_priority_def
        opt_ok_def sample_dateOf_def db_empty_def Db_new_def no_NUL_def)
  from bulk_create_skips_malformed_items [where dateOf = sample_dateOf and user = bob
      and clock = sample_clock and sm = mem_with_alice_task and sd = db_empty,
      OF h1 h2 h3 h4]
  show ?thesis
    using h1 h2 h3 h4 h5 h6
    by (simp add: post_tasks_def createOne_def good_item_def item_without_assignee_def
      own_prop_def sample_dateOf_def tomorrow_def
      Date_now_def sample_clock_def plusOneDay_def timeClip_def insertTaskSchema_def
      z_optional_def memStorage_def resolves_def Mem_createTask_def mem_with_alice_task_def
      bob_def Let_def InsertTask.extend_def Task.fields_def)
qed

end
